theory Spec2Isabelle
  imports Main
begin

section \<open>Snapshot publisher (scripts/snapshots.ts)\<close>

text \<open>
  The script is glue over external commands: it reads the environment, runs git through
  \<open>execSync\<close> and \<open>spawnSync\<close>, touches the file system through Node's \<open>fs\<close> and calls
  three other build scripts. The embedding keeps the control flow of the source and makes
  every interaction with the outside explicit:
  \<^item> each interaction appends an \<open>event\<close> to a trace, in program order;
  \<^item> what the outside answers is read from a \<open>world\<close>, whose answers may depend on the
    whole trace so far (so the same command can succeed once and fail later);
  \<^item> an exception and \<open>process.exit\<close> are values of the type \<open>failure\<close>.
\<close>

subsection \<open>Data\<close>

text \<open>
  Modelled from the spec: the type \<open>PackageInfo\<close> and the table \<open>packages\<close> are declared in
  \<open>lib/packages\<close>, which is not among the sources. The record has the attributes of the
  spec's data model, which are the ones the script reads; the table is a parameter of the
  entry point, as the list of its values in key order.
\<close>

record PackageInfo =
  name :: string
  dist :: string
  snapshot :: bool
  snapshotRepo :: string
  snapshotHash :: string

text \<open>\<open>SnapshotsOptions\<close>: every field is optional in the source (\<open>None\<close> is \<open>undefined\<close>).\<close>

record SnapshotsOptions =
  opts_force :: "bool option"
  opts_githubToken :: "string option"
  opts_branch :: "string option"

datatype level = Debug | Info | Warn | Error

text \<open>A logger is the one passed in, or a child made with \<open>createChild\<close>.\<close>

datatype logger = Root | Child logger string

datatype event =
    ExecSync string
  | SpawnSync string "string list" "string option"
  | Log logger level string
  | Mkdtemp string
  | Chdir string
  | Readdir string
  | Stat string
  | Exists string
  | Mkdir string
  | ReadFile string "string option"
  | WriteFile string string
  | CreateTemporaryProject
  | Build
  | JsonHelp string

datatype failure = Threw | Exited int

type_synonym trace = "event list"

type_synonym 'a io = "trace \<Rightarrow> (failure + 'a) \<times> trace"

text \<open>
  The outside of the script. The answers of the operating system, of git and of the three
  imported build steps are functions of the trace so far. \<open>None\<close> (or \<open>False\<close>) is the call
  throwing. \<open>spawnSync\<close> answers with the exit status (\<open>None\<close> for \<open>null\<close>) and the
  standard output of the child, or throws itself (it does for an argument that holds a NUL
  byte). The second argument of \<open>readFileSync\<close> and of the event \<open>ReadFile\<close> is the encoding,
  absent in line 47 and \<open>utf-8\<close> in line 114. \<open>path_join\<close>, \<open>path_basename\<close> and
  \<open>JSON_stringify\<close> are the functions of the Node runtime of those names; \<open>Date_string\<close> is
  \<open>'' + new Date()\<close>; \<open>call_stack\<close> is the number of nested calls of \<open>_copy\<close>, below the
  first, that the runtime allows before it throws a RangeError;
  \<open>createTemporaryProject\<close>, \<open>build\<close> and \<open>jsonHelp\<close> are the imported scripts
  (json-help, build-bazel), which the publisher awaits and whose rejection it does not catch.
\<close>

record world =
  env_CIRCLE_BRANCH :: "string option"
  env_SNAPSHOT_BUILDS_GITHUB_TOKEN :: "string option"
  execSync :: "trace \<Rightarrow> string \<Rightarrow> string option"
  spawnSync :: "trace \<Rightarrow> string \<Rightarrow> string list \<Rightarrow> string option \<Rightarrow> (int option \<times> string) option"
  os_tmpdir :: "trace \<Rightarrow> string"
  path_join :: "string \<Rightarrow> string \<Rightarrow> string"
  path_basename :: "string \<Rightarrow> string"
  JSON_stringify :: "string \<Rightarrow> string"
  mkdtempSync :: "trace \<Rightarrow> string \<Rightarrow> string option"
  process_cwd :: "trace \<Rightarrow> string"
  process_chdir :: "trace \<Rightarrow> string \<Rightarrow> bool"
  readdirSync :: "trace \<Rightarrow> string \<Rightarrow> string list option"
  statSync_isDirectory :: "trace \<Rightarrow> string \<Rightarrow> bool option"
  existsSync :: "trace \<Rightarrow> string \<Rightarrow> bool"
  mkdirSync :: "trace \<Rightarrow> string \<Rightarrow> bool"
  readFileSync :: "trace \<Rightarrow> string \<Rightarrow> string option \<Rightarrow> string option"
  writeFileSync :: "trace \<Rightarrow> string \<Rightarrow> string \<Rightarrow> bool"
  Date_string :: "trace \<Rightarrow> string"
  call_stack :: nat
  createTemporaryProject :: "trace \<Rightarrow> failure + string"
  build :: "trace \<Rightarrow> failure + unit"
  jsonHelp :: "trace \<Rightarrow> string \<Rightarrow> failure + unit"

subsection \<open>Sequencing, exceptions\<close>

definition ret :: "'a \<Rightarrow> 'a io" where
  "ret x h = (Inr x, h)"

definition throw :: "failure \<Rightarrow> 'a io" where
  "throw e h = (Inl e, h)"

definition bindM :: "'a io \<Rightarrow> ('a \<Rightarrow> 'b io) \<Rightarrow> 'b io" where
  "bindM m k h = (case m h of (Inl e, h') \<Rightarrow> (Inl e, h') | (Inr x, h') \<Rightarrow> k x h')"

definition thenM :: "'a io \<Rightarrow> 'b io \<Rightarrow> 'b io" where
  "thenM m k = bindM m (\<lambda>_. k)"

text \<open>\<open>try { m } catch { k }\<close>: an exception is caught, \<open>process.exit\<close> is not.\<close>

definition tryM :: "'a io \<Rightarrow> 'a io \<Rightarrow> 'a io" where
  "tryM m k h = (case m h of (Inl Threw, h') \<Rightarrow> k h' | r \<Rightarrow> r)"

text \<open>One interaction: the event is appended, the answer is the world's at the trace before it.\<close>

definition call :: "event \<Rightarrow> (trace \<Rightarrow> failure + 'a) \<Rightarrow> 'a io" where
  "call e answer h = (answer h, h @ [e])"

text \<open>A read of the outside that leaves no event (the clock, the working directory).\<close>

definition reading :: "(trace \<Rightarrow> 'a) \<Rightarrow> 'a io" where
  "reading f h = (Inr (f h), h)"

definition orThrow :: "'a option \<Rightarrow> failure + 'a" where
  "orThrow x = (case x of None \<Rightarrow> Inl Threw | Some v \<Rightarrow> Inr v)"

definition okOrThrow :: "bool \<Rightarrow> failure + unit" where
  "okOrThrow b = (if b then Inr () else Inl Threw)"

definition log :: "logger \<Rightarrow> level \<Rightarrow> string \<Rightarrow> unit io" where
  "log lg lvl msg = call (Log lg lvl msg) (\<lambda>_. Inr ())"

subsection \<open>Strings\<close>

text \<open>
  Strings are byte strings in UTF-8. \<open>white_space\<close> lists the encodings of the code points
  that \<open>String.prototype.trim\<close> strips, the WhiteSpace and LineTerminator of ECMAScript:
  U+0009 to U+000D, U+0020, U+00A0, U+1680, U+2000 to U+200A, U+2028, U+2029, U+202F, U+205F,
  U+3000 and U+FEFF.
\<close>

definition white_space :: "string list" where
  "white_space =
     [[CHR 0x09], [CHR 0x0A], [CHR 0x0B], [CHR 0x0C], [CHR 0x0D], [CHR 0x20],
      [CHR 0xC2, CHR 0xA0],
      [CHR 0xE1, CHR 0x9A, CHR 0x80],
      [CHR 0xE2, CHR 0x80, CHR 0x80], [CHR 0xE2, CHR 0x80, CHR 0x81],
      [CHR 0xE2, CHR 0x80, CHR 0x82], [CHR 0xE2, CHR 0x80, CHR 0x83],
      [CHR 0xE2, CHR 0x80, CHR 0x84], [CHR 0xE2, CHR 0x80, CHR 0x85],
      [CHR 0xE2, CHR 0x80, CHR 0x86], [CHR 0xE2, CHR 0x80, CHR 0x87],
      [CHR 0xE2, CHR 0x80, CHR 0x88], [CHR 0xE2, CHR 0x80, CHR 0x89],
      [CHR 0xE2, CHR 0x80, CHR 0x8A],
      [CHR 0xE2, CHR 0x80, CHR 0xA8], [CHR 0xE2, CHR 0x80, CHR 0xA9],
      [CHR 0xE2, CHR 0x80, CHR 0xAF],
      [CHR 0xE2, CHR 0x81, CHR 0x9F],
      [CHR 0xE3, CHR 0x80, CHR 0x80],
      [CHR 0xEF, CHR 0xBB, CHR 0xBF]]"

text \<open>
  \<open>strip ws s\<close> removes from the front of \<open>s\<close> every leading occurrence of a sequence of
  \<open>ws\<close> (sequences of one to three bytes).
\<close>

fun strip :: "string list \<Rightarrow> string \<Rightarrow> string" where
  "strip ws [] = []"
| "strip ws (c # cs) =
     (if [c] \<in> set ws then strip ws cs
      else if c # take 1 cs \<in> set ws then strip ws (drop 1 cs)
      else if c # take 2 cs \<in> set ws then strip ws (drop 2 cs)
      else c # cs)"

text \<open>\<open>String.prototype.trim\<close>: white space is stripped at the front and at the end.\<close>

definition trim :: "string \<Rightarrow> string" where
  "trim s = rev (strip (map rev white_space) (rev (strip white_space s)))"

text \<open>\<open>Array.prototype.join\<close>.\<close>

fun join :: "string \<Rightarrow> string list \<Rightarrow> string" where
  "join sep [] = []"
| "join sep [x] = x"
| "join sep (x # y # ys) = x @ sep @ join sep (y # ys)"

text \<open>JavaScript's \<open>a || b\<close> on optional strings: \<open>undefined\<close> and \<open>''\<close> are falsy.\<close>

definition truthy :: "string option \<Rightarrow> bool" where
  "truthy x \<longleftrightarrow> (case x of None \<Rightarrow> False | Some s \<Rightarrow> s \<noteq> [])"

definition or_else :: "string option \<Rightarrow> string option \<Rightarrow> string option" where
  "or_else a b = (if truthy a then a else b)"

definition or_default :: "string option \<Rightarrow> string \<Rightarrow> string" where
  "or_default a d = (case a of None \<Rightarrow> d | Some s \<Rightarrow> if s = [] then d else s)"

definition nl :: string where
  "nl = [CHR 0x0A]"

text \<open>The template literal \<open>readmeHeaderFn\<close>, line by line; every line ends with a line feed.\<close>

definition readmeHeaderFn :: "PackageInfo \<Rightarrow> string" where
  "readmeHeaderFn pkg = concat (map (\<lambda>l. l @ nl)
     [ '''',
       ''# Snapshot build of '' @ name pkg,
       '''',
       ''This repository is a snapshot of a commit on the original repository. The original code used to'',
       ''generate this is located at http://github.com/angular/angular-cli.'',
       '''',
       ''We do not accept PRs or Issues opened on this repository. You should not use this over a tested and'',
       ''released version of this package.'',
       '''',
       ''To test this snapshot in your own project, use'',
       '''',
       ''```bash'',
       ''npm install git+https://github.com/'' @ snapshotRepo pkg @ ''.git'',
       ''```'',
       '''',
       ''----'' ])"

subsection \<open>\<open>_copy\<close>\<close>

text \<open>
  \<open>_copy\<close> recurses into every subdirectory. The first argument is the depth of calls the
  runtime still allows; at depth 0 the call throws (RangeError), as a failing file system
  call does.
\<close>

fun copy :: "nat \<Rightarrow> world \<Rightarrow> string \<Rightarrow> string \<Rightarrow> unit io"
and copy_each :: "nat \<Rightarrow> world \<Rightarrow> string \<Rightarrow> string \<Rightarrow> string list \<Rightarrow> unit io"
where
  "copy 0 W from to h = (Inl Threw, h)"
| "copy (Suc d) W from to h =
     bindM (call (Readdir from) (\<lambda>h. orThrow (readdirSync W h from)))
       (\<lambda>names. copy_each d W from to names) h"
| "copy_each d W from to [] h = (Inr (), h)"
| "copy_each d W from to (nm # names) h =
     (let fromPath = path_join W from nm; toPath = path_join W to nm in
      thenM
        (bindM (call (Stat fromPath) (\<lambda>h. orThrow (statSync_isDirectory W h fromPath)))
          (\<lambda>isDirectory.
             if isDirectory then
               thenM
                 (bindM (call (Exists toPath) (\<lambda>h. Inr (existsSync W h toPath)))
                   (\<lambda>ex. if \<not> ex then call (Mkdir toPath) (\<lambda>h. okOrThrow (mkdirSync W h toPath))
                         else ret ()))
                 (copy d W fromPath toPath)
             else
               bindM (call (ReadFile fromPath None) (\<lambda>h. orThrow (readFileSync W h fromPath None)))
                 (\<lambda>content. call (WriteFile toPath content)
                    (\<lambda>h. okOrThrow (writeFileSync W h toPath content)))))
        (copy_each d W from to names)) h"

subsection \<open>\<open>_exec\<close>\<close>

text \<open>
  \<open>spawnSync\<close> is called outside any \<open>try\<close>: when it throws, the exception leaves \<open>_exec\<close>
  with nothing logged. \<open>status != 0\<close> holds for every status but 0, and for \<open>null\<close> (the
  child was killed or could not be started).
\<close>

definition command_failed :: "world \<Rightarrow> string \<Rightarrow> string list \<Rightarrow> string" where
  "command_failed W command args =
     ''Command failed: '' @ command @ '' '' @ join '', '' (map (JSON_stringify W) args)"

definition exec :: "world \<Rightarrow> string \<Rightarrow> string list \<Rightarrow> string option \<Rightarrow> logger \<Rightarrow> string io" where
  "exec W command args cwd lg =
     bindM (call (SpawnSync command args cwd) (\<lambda>h. orThrow (spawnSync W h command args cwd)))
       (\<lambda>(status, stdout).
          if status \<noteq> Some 0 then
            thenM (log lg Error (command_failed W command args)) (throw Threw)
          else ret stdout)"

subsection \<open>\<open>_publishSnapshot\<close>\<close>

text \<open>
  The statements of \<open>_publishSnapshot\<close> in their order. \<open>lg\<close> is the logger passed in;
  \<open>githubToken\<close> and \<open>branch\<close> are tested for truthiness as the source does (\<open>\<noteq> []\<close>).
  The blocks of the function body that the claims speak about are named first.
\<close>

text \<open>Lines 89 to 96: check out the branch, or create it when that throws.\<close>

definition checkout_branch :: "world \<Rightarrow> string \<Rightarrow> string \<Rightarrow> logger \<Rightarrow> unit io" where
  "checkout_branch W branch destPath publishLogger =
     (if branch \<noteq> [] then
        tryM (thenM (exec W ''git'' [''checkout'', branch] (Some destPath) publishLogger) (ret ()))
             (thenM (exec W ''git'' [''checkout'', ''-b'', branch] (Some destPath) publishLogger)
                (ret ()))
      else ret ())"

text \<open>Lines 99 to 103: remove the tracked files; the \<open>catch\<close> block is empty.\<close>

definition clear_snapshot :: "world \<Rightarrow> string \<Rightarrow> logger \<Rightarrow> unit io" where
  "clear_snapshot W destPath publishLogger =
     tryM (thenM (exec W ''git'' [''rm'', ''-rf'', ''./''] (Some destPath) publishLogger) (ret ()))
          (ret ())"

text \<open>
  Lines 111 to 117: the header, followed by the README of the clone when it can be read,
  is written back.
\<close>

definition write_readme :: "world \<Rightarrow> PackageInfo \<Rightarrow> string \<Rightarrow> unit io" where
  "write_readme W pkg destPath =
     (let readmePath = path_join W destPath ''README.md'' in
      bindM (tryM (bindM (call (ReadFile readmePath (Some ''utf-8''))
                            (\<lambda>h. orThrow (readFileSync W h readmePath (Some ''utf-8''))))
                     (\<lambda>old. ret (readmeHeaderFn pkg @ old)))
                  (ret (readmeHeaderFn pkg)))
        (\<lambda>readme. call (WriteFile readmePath readme)
                     (\<lambda>h. okOrThrow (writeFileSync W h readmePath readme))))"

text \<open>Line 121: the file \<open>uniqueId\<close> holds the date at the moment of the write.\<close>

definition write_uniqueId :: "world \<Rightarrow> string \<Rightarrow> unit io" where
  "write_uniqueId W destPath =
     (let uniquePath = path_join W destPath ''uniqueId'' in
      bindM (reading (Date_string W))
        (\<lambda>now. call (WriteFile uniquePath now)
                  (\<lambda>h. okOrThrow (writeFileSync W h uniquePath now))))"

text \<open>Lines 124 to 128.\<close>

definition commit_and_push ::
  "world \<Rightarrow> PackageInfo \<Rightarrow> string \<Rightarrow> string \<Rightarrow> string \<Rightarrow> logger \<Rightarrow> unit io" where
  "commit_and_push W pkg branch message destPath publishLogger =
     thenM (exec W ''git'' [''add'', ''.''] (Some destPath) publishLogger)
    (thenM (exec W ''git'' [''commit'', ''-a'', ''-m'', message] (Some destPath) publishLogger)
    (thenM (exec W ''git'' [''tag'', snapshotHash pkg] (Some destPath) publishLogger)
    (thenM (exec W ''git'' [''push'', ''origin'', branch] (Some destPath) publishLogger)
    (thenM (exec W ''git'' [''push'', ''--tags'', ''origin'', branch] (Some destPath) publishLogger)
       (ret ())))))"

definition clone_url :: "string \<Rightarrow> PackageInfo \<Rightarrow> string" where
  "clone_url githubToken pkg =
     ''https://'' @ (if githubToken \<noteq> [] then githubToken @ ''@'' else []) @
     ''github.com/'' @ snapshotRepo pkg @ ''.git''"

definition publishSnapshot ::
  "world \<Rightarrow> PackageInfo \<Rightarrow> string \<Rightarrow> string \<Rightarrow> logger \<Rightarrow> string \<Rightarrow> unit io" where
  "publishSnapshot W pkg branch message lg githubToken =
    (if \<not> snapshot pkg then log lg Warn (''Skipping '' @ name pkg @ ''.'')
     else
      thenM (log lg Info (''Publishing '' @ name pkg @ '' to repo '' @
               JSON_stringify W (snapshotRepo pkg) @ ''.''))
     (bindM (reading (process_cwd W))
        (\<lambda>root.
        (let publishLogger = Child lg ''publish'';
             url = clone_url githubToken pkg;
             destPath = path_join W root (path_basename W (snapshotRepo pkg))
         in
          thenM (log publishLogger Debug (''Temporary directory: '' @ root))
         (thenM (exec W ''git'' [''clone'', url] (Some root) publishLogger)
         (thenM (checkout_branch W branch destPath publishLogger)
         (thenM (clear_snapshot W destPath publishLogger)
         (thenM (copy (Suc (call_stack W)) W (dist pkg) destPath)
         (thenM (if githubToken \<noteq> [] then
                   thenM (exec W ''git'' [''config'', ''commit.gpgSign'', ''false''] (Some destPath)
                            publishLogger)
                     (ret ())
                 else ret ())
         (thenM (write_readme W pkg destPath)
         (thenM (write_uniqueId W destPath)
                (commit_and_push W pkg branch message destPath publishLogger))))))))))))"

text \<open>
  The same statements once more, cut at the clone: the message of line 79, the directory of
  line 81, and lines 98 to 128, which follow the checkout of the branch.
\<close>

definition publishing :: "world \<Rightarrow> PackageInfo \<Rightarrow> string" where
  "publishing W pkg =
     ''Publishing '' @ name pkg @ '' to repo '' @ JSON_stringify W (snapshotRepo pkg) @ ''.''"

definition dest_path :: "world \<Rightarrow> PackageInfo \<Rightarrow> string \<Rightarrow> string" where
  "dest_path W pkg root = path_join W root (path_basename W (snapshotRepo pkg))"

definition after_checkout ::
  "world \<Rightarrow> PackageInfo \<Rightarrow> string \<Rightarrow> string \<Rightarrow> string \<Rightarrow> string \<Rightarrow> logger \<Rightarrow> unit io" where
  "after_checkout W pkg branch message githubToken destPath publishLogger =
     thenM (clear_snapshot W destPath publishLogger)
    (thenM (copy (Suc (call_stack W)) W (dist pkg) destPath)
    (thenM (if githubToken \<noteq> [] then
              thenM (exec W ''git'' [''config'', ''commit.gpgSign'', ''false''] (Some destPath)
                       publishLogger)
                (ret ())
            else ret ())
    (thenM (write_readme W pkg destPath)
    (thenM (write_uniqueId W destPath)
           (commit_and_push W pkg branch message destPath publishLogger)))))"

subsection \<open>The entry point\<close>

text \<open>
  Lines 146 to 151: \<open>let branch = opts.branch || 'main'\<close>, then the assignment from
  \<open>CIRCLE_BRANCH\<close> whenever that variable is a string.
\<close>

definition resolve_branch :: "world \<Rightarrow> SnapshotsOptions \<Rightarrow> string" where
  "resolve_branch W opts =
     (let branch = or_default (opts_branch opts) ''main'' in
      case env_CIRCLE_BRANCH W of Some b \<Rightarrow> b | None \<Rightarrow> branch)"

text \<open>
  Line 153: \<open>(opts.githubToken || process.env.SNAPSHOT_BUILDS_GITHUB_TOKEN || '').trim()\<close>.
\<close>

definition resolve_token :: "world \<Rightarrow> SnapshotsOptions \<Rightarrow> string" where
  "resolve_token W opts =
     trim (or_default (or_else (opts_githubToken opts) (env_SNAPSHOT_BUILDS_GITHUB_TOKEN W)) [])"

text \<open>The loop over \<open>Object.keys(packages)\<close>; the table is the list of its values in key order.\<close>

fun publish_all ::
  "world \<Rightarrow> string \<Rightarrow> PackageInfo list \<Rightarrow> string \<Rightarrow> string \<Rightarrow> logger \<Rightarrow> string \<Rightarrow> unit io" where
  "publish_all W root [] branch message lg githubToken h = (Inr (), h)"
| "publish_all W root (pkg # pkgs) branch message lg githubToken h =
     thenM (call (Chdir root) (\<lambda>h. okOrThrow (process_chdir W h root)))
    (thenM (publishSnapshot W pkg branch message lg githubToken)
           (publish_all W root pkgs branch message lg githubToken)) h"

definition git_status_cmd :: string where
  "git_status_cmd = ''git status --porcelain''"

definition git_log_cmd :: string where
  "git_log_cmd = ''git log --format='' @ [CHR 0x22] @ ''%h %s'' @ [CHR 0x22] @ '' -n1''"

text \<open>Lines 139 to 142: \<open>!opts.force\<close> holds when \<open>force\<close> is absent or false.\<close>

definition precondition_check :: "world \<Rightarrow> SnapshotsOptions \<Rightarrow> logger \<Rightarrow> unit io" where
  "precondition_check W opts lg =
     bindM (call (ExecSync git_status_cmd) (\<lambda>h. orThrow (execSync W h git_status_cmd)))
       (\<lambda>status.
          if status \<noteq> [] \<and> opts_force opts \<noteq> Some True then
            thenM (log lg Error ''You cannot run snapshots with local changes.'')
              (throw (Exited 1))
          else ret ())"

text \<open>Lines 144 to 183.\<close>

definition snapshots_run :: "world \<Rightarrow> PackageInfo list \<Rightarrow> SnapshotsOptions \<Rightarrow> logger \<Rightarrow> int io" where
  "snapshots_run W packages opts lg =
     bindM (bindM (reading (os_tmpdir W))
              (\<lambda>tmpdir.
                 (let prefix = path_join W tmpdir ''angular-cli-publish-'' in
                  call (Mkdtemp prefix) (\<lambda>h. orThrow (mkdtempSync W h prefix)))))
       (\<lambda>root.
     bindM (call (ExecSync git_log_cmd) (\<lambda>h. orThrow (execSync W h git_log_cmd)))
       (\<lambda>out.
       (let message = trim out;
            branch = resolve_branch W opts;
            githubToken = resolve_token W opts
        in
     thenM (if githubToken \<noteq> [] then
              thenM (log lg Info ''Setting up global git name.'')
             (thenM (exec W ''git'' [''config'', ''--global'', ''user.email'', ''circleci@angular.io'']
                       None lg)
             (thenM (exec W ''git'' [''config'', ''--global'', ''user.name'', ''Angular Builds'']
                       None lg)
             (thenM (exec W ''git'' [''config'', ''--global'', ''push.default'', ''simple''] None lg)
                (ret ()))))
            else ret ())
    (bindM (call CreateTemporaryProject (createTemporaryProject W))
       (\<lambda>temporaryProjectRoot.
     thenM (log lg Info ''Building...'')
    (thenM (call Build (build W))
    (thenM (call (JsonHelp temporaryProjectRoot) (\<lambda>h. jsonHelp W h temporaryProjectRoot))
    (if githubToken = [] then
       thenM (log lg Info ''No token given, skipping actual publishing...'') (ret 0)
     else
       thenM (publish_all W root packages branch message lg githubToken) (ret 0)))))))))"

text \<open>The exported function.\<close>

definition snapshots :: "world \<Rightarrow> PackageInfo list \<Rightarrow> SnapshotsOptions \<Rightarrow> logger \<Rightarrow> int io" where
  "snapshots W packages opts lg =
     thenM (precondition_check W opts lg) (snapshots_run W packages opts lg)"

subsection \<open>Concrete worlds and packages\<close>

text \<open>
  A world in which every command succeeds and prints nothing, the working tree is clean,
  the latest commit is \<open>abc1234 fix build\<close>, every directory is empty and no file can
  be read. Paths are joined with a slash; \<open>JSON_stringify\<close> quotes its argument (none of
  the strings below needs escaping).
\<close>

definition dq :: string where
  "dq = [CHR 0x22]"

definition calm :: world where
  "calm = \<lparr>
     env_CIRCLE_BRANCH = None,
     env_SNAPSHOT_BUILDS_GITHUB_TOKEN = None,
     execSync = (\<lambda>h c. Some (if c = git_log_cmd then ''abc1234 fix build'' @ nl else [])),
     spawnSync = (\<lambda>h c a d. Some (Some 0, [])),
     os_tmpdir = (\<lambda>h. ''/tmp''),
     path_join = (\<lambda>a b. a @ ''/'' @ b),
     path_basename = (\<lambda>p. rev (takeWhile (\<lambda>c. c \<noteq> CHR ''/'') (rev p))),
     JSON_stringify = (\<lambda>s. dq @ s @ dq),
     mkdtempSync = (\<lambda>h p. Some (p @ ''a1b2c3'')),
     process_cwd = (\<lambda>h. ''/tmp/angular-cli-publish-a1b2c3''),
     process_chdir = (\<lambda>h p. True),
     readdirSync = (\<lambda>h p. Some []),
     statSync_isDirectory = (\<lambda>h p. None),
     existsSync = (\<lambda>h p. False),
     mkdirSync = (\<lambda>h p. True),
     readFileSync = (\<lambda>h p enc. None),
     writeFileSync = (\<lambda>h p c. True),
     Date_string = (\<lambda>h. ''Sun Nov 01 2026 10:00:00 GMT+0000 (Coordinated Universal Time)''),
     call_stack = 3,
     createTemporaryProject = (\<lambda>h. Inr ''/tmp/project''),
     build = (\<lambda>h. Inr ()),
     jsonHelp = (\<lambda>h p. Inr ()) \<rparr>"

text \<open>The package of the spec's end-to-end scenario, and one that is not snapshotted.\<close>

definition core_pkg :: PackageInfo where
  "core_pkg = \<lparr> name = ''core'', dist = ''./dist/core'', snapshot = True,
                snapshotRepo = ''org/core-builds'', snapshotHash = ''abc123'' \<rparr>"

definition docs_pkg :: PackageInfo where
  "docs_pkg = \<lparr> name = ''docs'', dist = ''./dist/docs'', snapshot = False,
                snapshotRepo = ''org/docs-builds'', snapshotHash = ''abc123'' \<rparr>"

definition no_opts :: SnapshotsOptions where
  "no_opts = \<lparr> opts_force = None, opts_githubToken = None, opts_branch = None \<rparr>"

subsection \<open>Predicates on traces\<close>

text \<open>
  \<open>emits P m\<close>: from every trace, \<open>m\<close> only appends events, and each of them satisfies \<open>P\<close>.
\<close>

definition emits :: "(event \<Rightarrow> bool) \<Rightarrow> 'a io \<Rightarrow> bool" where
  "emits P m \<longleftrightarrow> (\<forall>h. \<exists>es. snd (m h) = h @ es \<and> list_all P es)"

text \<open>The calls of \<open>fs\<close>.\<close>

definition fs_event :: "event \<Rightarrow> bool" where
  "fs_event e \<longleftrightarrow> (case e of Readdir _ \<Rightarrow> True | Stat _ \<Rightarrow> True | Exists _ \<Rightarrow> True | Mkdir _ \<Rightarrow> True
      | ReadFile _ _ \<Rightarrow> True | WriteFile _ _ \<Rightarrow> True | _ \<Rightarrow> False)"

text \<open>The events of \<open>_copy\<close>: its reads are those without an encoding.\<close>

definition copy_event :: "event \<Rightarrow> bool" where
  "copy_event e \<longleftrightarrow> (case e of Readdir _ \<Rightarrow> True | Stat _ \<Rightarrow> True | Exists _ \<Rightarrow> True | Mkdir _ \<Rightarrow> True
      | ReadFile _ enc \<Rightarrow> enc = None | WriteFile _ _ \<Rightarrow> True | _ \<Rightarrow> False)"

text \<open>The arguments of the three commands of lines 157 to 159.\<close>

definition global_config :: "string list list" where
  "global_config =
     [[''config'', ''--global'', ''user.email'', ''circleci@angular.io''],
      [''config'', ''--global'', ''user.name'', ''Angular Builds''],
      [''config'', ''--global'', ''push.default'', ''simple'']]"

text \<open>The argument lists of the git commands that \<open>_publishSnapshot\<close> can run for a package.\<close>

definition publish_args :: "string \<Rightarrow> string \<Rightarrow> string \<Rightarrow> PackageInfo \<Rightarrow> string list \<Rightarrow> bool" where
  "publish_args githubToken branch message pkg args \<longleftrightarrow>
     args = [''clone'', clone_url githubToken pkg] \<or>
     (branch \<noteq> [] \<and> (args = [''checkout'', branch] \<or> args = [''checkout'', ''-b'', branch])) \<or>
     args = [''rm'', ''-rf'', ''./''] \<or>
     (githubToken \<noteq> [] \<and> args = [''config'', ''commit.gpgSign'', ''false'']) \<or>
     args = [''add'', ''.''] \<or>
     args = [''commit'', ''-a'', ''-m'', message] \<or>
     args = [''tag'', snapshotHash pkg] \<or>
     args = [''push'', ''origin'', branch] \<or>
     args = [''push'', ''--tags'', ''origin'', branch]"

text \<open>
  The events that \<open>_publishSnapshot\<close> can append for a package: logs; for a package with
  \<open>snapshot\<close> true also file system calls and the git commands above, run in some directory.
\<close>

definition publish_event :: "string \<Rightarrow> string \<Rightarrow> string \<Rightarrow> PackageInfo \<Rightarrow> event \<Rightarrow> bool" where
  "publish_event githubToken branch message pkg e \<longleftrightarrow>
     (case e of
        Log lg lvl msg \<Rightarrow> True
      | SpawnSync c args cwd \<Rightarrow>
          snapshot pkg \<and> c = ''git'' \<and> cwd \<noteq> None \<and> publish_args githubToken branch message pkg args
      | _ \<Rightarrow> snapshot pkg \<and> fs_event e)"

text \<open>
  The events that a run can append: the two \<open>execSync\<close> commands, logs, the temporary
  directory, the three imported steps and, only with a token, the global configuration
  (spawned without a directory), the change of directory and the events of the packages.
\<close>

definition run_event :: "PackageInfo list \<Rightarrow> string \<Rightarrow> string \<Rightarrow> string \<Rightarrow> event \<Rightarrow> bool" where
  "run_event pkgs githubToken branch message e \<longleftrightarrow>
     (case e of
        ExecSync c \<Rightarrow> c = git_status_cmd \<or> c = git_log_cmd
      | Log lg lvl msg \<Rightarrow> True
      | Mkdtemp p \<Rightarrow> True
      | CreateTemporaryProject \<Rightarrow> True
      | Build \<Rightarrow> True
      | JsonHelp p \<Rightarrow> True
      | Chdir p \<Rightarrow> githubToken \<noteq> [] \<and> pkgs \<noteq> []
      | SpawnSync c args cwd \<Rightarrow>
          githubToken \<noteq> [] \<and>
          (if cwd = None then c = ''git'' \<and> args \<in> set global_config
           else list_ex (\<lambda>pkg. publish_event githubToken branch message pkg e) pkgs)
      | _ \<Rightarrow> githubToken \<noteq> [] \<and> list_ex (\<lambda>pkg. publish_event githubToken branch message pkg e) pkgs)"

text \<open>
  The two commands whose failure is caught: the removal of the tracked files and the first
  checkout of the branch.
\<close>

definition tolerated :: "string \<Rightarrow> string list \<Rightarrow> bool" where
  "tolerated branch args \<longleftrightarrow> args = [''rm'', ''-rf'', ''./''] \<or> args = [''checkout'', branch]"

definition failure_of :: "failure + 'a \<Rightarrow> failure option" where
  "failure_of r = (case r of Inl e \<Rightarrow> Some e | Inr _ \<Rightarrow> None)"

text \<open>The command was spawned and exited with status 0: \<open>_exec\<close> returns normally.\<close>

definition succeeded :: "world \<Rightarrow> trace \<Rightarrow> string \<Rightarrow> string list \<Rightarrow> string option \<Rightarrow> bool" where
  "succeeded W h c args cwd \<longleftrightarrow>
     (case spawnSync W h c args cwd of None \<Rightarrow> False | Some (status, out) \<Rightarrow> status = Some 0)"

text \<open>
  What a failing \<open>_exec\<close> appends after the event of the command: nothing when \<open>spawnSync\<close>
  itself threw, the error log of the command and its arguments otherwise.
\<close>

definition failure_log ::
  "world \<Rightarrow> logger \<Rightarrow> trace \<Rightarrow> string \<Rightarrow> string list \<Rightarrow> string option \<Rightarrow> event list" where
  "failure_log W lg h c args cwd =
     (case spawnSync W h c args cwd of
        None \<Rightarrow> []
      | Some r \<Rightarrow> [Log lg Error (command_failed W c args)])"

text \<open>The list that holds one event, the error log \<open>msg\<close> (of any logger).\<close>

fun only_failure_log :: "string \<Rightarrow> event list \<Rightarrow> bool" where
  "only_failure_log msg [Log lg lvl m] \<longleftrightarrow> lvl = Error \<and> m = msg"
| "only_failure_log msg es \<longleftrightarrow> False"

text \<open>
  The file system calls that no \<open>try\<close> block of the script encloses, with the world's answer
  that makes them throw: the calls of \<open>_copy\<close> (\<open>readFileSync\<close> without an encoding is the
  one of line 47) and the two writes of lines 117 and 121. The \<open>readFileSync\<close> of line 114,
  with the encoding \<open>utf-8\<close>, is inside a \<open>try\<close> and is left out.
\<close>

fun fs_failed :: "world \<Rightarrow> trace \<Rightarrow> event \<Rightarrow> bool" where
  "fs_failed W h (Readdir p) \<longleftrightarrow> readdirSync W h p = None"
| "fs_failed W h (Stat p) \<longleftrightarrow> statSync_isDirectory W h p = None"
| "fs_failed W h (Mkdir p) \<longleftrightarrow> \<not> mkdirSync W h p"
| "fs_failed W h (ReadFile p enc) \<longleftrightarrow> enc = None \<and> readFileSync W h p None = None"
| "fs_failed W h (WriteFile p c) \<longleftrightarrow> \<not> writeFileSync W h p c"
| "fs_failed W h e \<longleftrightarrow> False"

text \<open>
  \<open>fail_fast W b h es f\<close>: in the events \<open>es\<close>, appended to the trace \<open>h\<close> by a computation
  whose failure is \<open>f\<close>, a failing file system call is the last event, and a command that did
  not succeed and is not tolerated is the last event when \<open>spawnSync\<close> threw, and is followed
  by its error log and by nothing else otherwise; in all these cases the computation has
  thrown.
\<close>

fun fail_fast :: "world \<Rightarrow> string \<Rightarrow> trace \<Rightarrow> event list \<Rightarrow> failure option \<Rightarrow> bool" where
  "fail_fast W b h [] f = True"
| "fail_fast W b h (e # es) f =
     (if fs_failed W h e then f = Some Threw \<and> es = []
      else case e of
        SpawnSync c args cwd \<Rightarrow>
          if succeeded W h c args cwd \<or> tolerated b args then fail_fast W b (h @ [e]) es f
          else f = Some Threw \<and>
               (case spawnSync W h c args cwd of
                  None \<Rightarrow> es = []
                | Some r \<Rightarrow> only_failure_log (command_failed W c args) es)
      | _ \<Rightarrow> fail_fast W b (h @ [e]) es f)"

text \<open>\<open>fails_fast W b m\<close>: \<open>m\<close> only appends events, and they satisfy \<open>fail_fast\<close>.\<close>

definition fails_fast :: "world \<Rightarrow> string \<Rightarrow> 'a io \<Rightarrow> bool" where
  "fails_fast W b m \<longleftrightarrow> (\<forall>h. \<exists>es. snd (m h) = h @ es \<and> fail_fast W b h es (failure_of (fst (m h))))"

text \<open>The argument of \<open>mkdtempSync\<close> (line 144).\<close>

definition tmp_prefix :: "world \<Rightarrow> trace \<Rightarrow> string" where
  "tmp_prefix W h = path_join W (os_tmpdir W h) ''angular-cli-publish-''"

text \<open>The calm world with one modified file in the working tree.\<close>

definition dirty :: world where
  "dirty = calm \<lparr> execSync := (\<lambda>h c. Some (if c = git_status_cmd then '' M README.md'' @ nl
                                          else if c = git_log_cmd then ''abc1234 fix build'' @ nl
                                          else [])) \<rparr>"

text \<open>The warning of line 74.\<close>

definition skip_message :: "PackageInfo \<Rightarrow> string" where
  "skip_message pkg = ''Skipping '' @ name pkg @ ''.''"

text \<open>
  An event that is a \<open>checkout\<close> or a \<open>push\<close> names the branch \<open>b\<close> and no other.
\<close>

definition uses_branch :: "string \<Rightarrow> event \<Rightarrow> bool" where
  "uses_branch b e \<longleftrightarrow>
     (case e of
        SpawnSync c args cwd \<Rightarrow>
          (take 1 args = [''checkout''] \<longrightarrow>
             args = [''checkout'', b] \<or> args = [''checkout'', ''-b'', b]) \<and>
          (take 1 args = [''push''] \<longrightarrow>
             args = [''push'', ''origin'', b] \<or> args = [''push'', ''--tags'', ''origin'', b])
      | _ \<Rightarrow> True)"

text \<open>
  A git command is only spawned with a non-empty token, and a \<open>clone\<close> has the token in
  its URL, for a repository of the table.
\<close>

definition uses_token :: "PackageInfo list \<Rightarrow> string \<Rightarrow> event \<Rightarrow> bool" where
  "uses_token pkgs tok e \<longleftrightarrow>
     (case e of
        SpawnSync c args cwd \<Rightarrow>
          tok \<noteq> [] \<and>
          (take 1 args = [''clone''] \<longrightarrow>
             list_ex (\<lambda>pkg. args = [''clone'', ''https://'' @ tok @ ''@github.com/'' @
                                                snapshotRepo pkg @ ''.git'']) pkgs)
      | _ \<Rightarrow> True)"

text \<open>No \<open>checkout\<close> at all, and every \<open>push\<close> has the empty string as its branch.\<close>

definition no_checkout :: "event \<Rightarrow> bool" where
  "no_checkout e \<longleftrightarrow>
     (case e of
        SpawnSync c args cwd \<Rightarrow>
          take 1 args \<noteq> [''checkout''] \<and>
          (take 1 args = [''push''] \<longrightarrow>
             args = [''push'', ''origin'', []] \<or> args = [''push'', ''--tags'', ''origin'', []])
      | _ \<Rightarrow> True)"

text \<open>
  The events of a run without publishing: no spawned command, no change of directory and
  no file system call.
\<close>

definition dry_event :: "event \<Rightarrow> bool" where
  "dry_event e \<longleftrightarrow>
     (case e of ExecSync c \<Rightarrow> True | Log lg lvl msg \<Rightarrow> True | Mkdtemp p \<Rightarrow> True
      | CreateTemporaryProject \<Rightarrow> True | Build \<Rightarrow> True | JsonHelp p \<Rightarrow> True | _ \<Rightarrow> False)"

text \<open>The calm world on the CI, where \<open>CIRCLE_BRANCH\<close> is \<open>ci\<close>.\<close>

definition ci_world :: world where
  "ci_world = calm \<lparr> env_CIRCLE_BRANCH := Some ''ci'' \<rparr>"

text \<open>Options with a token and the explicit branch \<open>dev\<close>.\<close>

definition dev_opts :: SnapshotsOptions where
  "dev_opts = \<lparr> opts_force = None, opts_githubToken = Some ''tok'', opts_branch = Some ''dev'' \<rparr>"

text \<open>Where \<open>core_pkg\<close> is cloned in the calm world.\<close>

definition core_dest :: "string option" where
  "core_dest = Some ''/tmp/angular-cli-publish-a1b2c3/core-builds''"

text \<open>
  The token variable is set in the environment, and the option holds one space.
\<close>

definition blank_token_world :: world where
  "blank_token_world = calm \<lparr> env_SNAPSHOT_BUILDS_GITHUB_TOKEN := Some ''secret'' \<rparr>"

definition blank_token_opts :: SnapshotsOptions where
  "blank_token_opts = \<lparr> opts_force = None, opts_githubToken = Some '' '', opts_branch = None \<rparr>"

text \<open>The token option is padded with a space and a line feed.\<close>

definition padded_opts :: SnapshotsOptions where
  "padded_opts = \<lparr> opts_force = None, opts_githubToken = Some ('' tok'' @ nl),
                   opts_branch = None \<rparr>"

text \<open>The token option is one no-break space, U+00A0.\<close>

definition nbsp_opts :: SnapshotsOptions where
  "nbsp_opts = \<lparr> opts_force = None, opts_githubToken = Some [CHR 0xC2, CHR 0xA0],
                 opts_branch = None \<rparr>"

text \<open>\<open>CIRCLE_BRANCH\<close> is set to the empty string.\<close>

definition empty_branch_world :: world where
  "empty_branch_world = calm \<lparr> env_CIRCLE_BRANCH := Some [] \<rparr>"

text \<open>The argument lists of the spawned commands of a trace, in order.\<close>

fun spawned :: "event list \<Rightarrow> string list list" where
  "spawned [] = []"
| "spawned (SpawnSync c args cwd # es) = args # spawned es"
| "spawned (e # es) = spawned es"

text \<open>A world in which every \<open>git checkout\<close> fails (for instance an invalid branch name).\<close>

definition checkout_fails :: world where
  "checkout_fails = calm \<lparr> spawnSync := (\<lambda>h c args cwd.
      if take 1 args = [''checkout''] then Some (Some 1, []) else Some (Some 0, [])) \<rparr>"

text \<open>A world in which the branch \<open>main\<close> does not exist yet in the mirror.\<close>

definition branch_missing :: world where
  "branch_missing = calm \<lparr> spawnSync := (\<lambda>h c args cwd.
      if args = [''checkout'', ''main''] then Some (Some 1, []) else Some (Some 0, [])) \<rparr>"

text \<open>The five commands of lines 124 to 128, run in the clone \<open>destPath\<close>.\<close>

definition final_steps :: "PackageInfo \<Rightarrow> string \<Rightarrow> string \<Rightarrow> string \<Rightarrow> event list" where
  "final_steps pkg branch message destPath =
     map (\<lambda>args. SpawnSync ''git'' args (Some destPath))
       [[''add'', ''.''],
        [''commit'', ''-a'', ''-m'', message],
        [''tag'', snapshotHash pkg],
        [''push'', ''origin'', branch],
        [''push'', ''--tags'', ''origin'', branch]]"

text \<open>An event that is none of \<open>add\<close>, \<open>commit\<close>, \<open>tag\<close>, \<open>push\<close>.\<close>

definition before_commit :: "event \<Rightarrow> bool" where
  "before_commit e \<longleftrightarrow>
     (case e of
        SpawnSync c args cwd \<Rightarrow>
          take 1 args \<in> {[''clone''], [''checkout''], [''rm''], [''config'']}
      | _ \<Rightarrow> True)"

text \<open>
  An event that is none of \<open>clone\<close>, \<open>add\<close>, \<open>commit\<close>, \<open>tag\<close>, \<open>push\<close>, and not a read with
  an encoding (as the read of \<open>README.md\<close>, line 114, is).
\<close>

definition preparing :: "event \<Rightarrow> bool" where
  "preparing e \<longleftrightarrow>
     (case e of
        SpawnSync c args cwd \<Rightarrow> take 1 args \<in> {[''checkout''], [''rm''], [''config'']}
      | ReadFile p enc \<Rightarrow> enc = None
      | _ \<Rightarrow> True)"

text \<open>
  The two events of lines 111 to 117 in the clone \<open>d\<close>, at the trace \<open>h\<close>: \<open>README.md\<close> is
  read, and written as the header followed by what was read (by nothing when the read
  throws).
\<close>

definition readme_step :: "world \<Rightarrow> PackageInfo \<Rightarrow> string \<Rightarrow> trace \<Rightarrow> event list" where
  "readme_step W pkg d h =
     (let p = path_join W d ''README.md'' in
      [ReadFile p (Some ''utf-8''),
       WriteFile p (readmeHeaderFn pkg @
                    (case readFileSync W h p (Some ''utf-8'') of None \<Rightarrow> [] | Some old \<Rightarrow> old))])"

text \<open>The event of line 121 at the trace \<open>h\<close>.\<close>

definition marker_step :: "world \<Rightarrow> string \<Rightarrow> trace \<Rightarrow> event list" where
  "marker_step W d h = [WriteFile (path_join W d ''uniqueId'') (Date_string W h)]"

text \<open>A world in which the mirror cannot be cloned.\<close>

definition clone_fails :: world where
  "clone_fails = calm \<lparr> spawnSync := (\<lambda>h c args cwd.
      if take 1 args = [''clone''] then Some (Some 128, []) else Some (Some 0, [])) \<rparr>"

text \<open>A world in which the build output cannot be listed (the directory is missing).\<close>

definition unreadable_dist :: world where
  "unreadable_dist = calm \<lparr> readdirSync := (\<lambda>h p. None) \<rparr>"

text \<open>A world in which the build output holds one file, which cannot be read.\<close>

definition unreadable_file :: world where
  "unreadable_file = calm \<lparr> readdirSync := (\<lambda>h p. Some [''main.js'']),
                             statSync_isDirectory := (\<lambda>h p. Some False) \<rparr>"

text \<open>A world in which the mirror has no tracked file yet: \<open>git rm\<close> fails.\<close>

definition empty_mirror :: world where
  "empty_mirror = calm \<lparr> spawnSync := (\<lambda>h c args cwd.
      if take 1 args = [''rm''] then Some (Some 128, []) else Some (Some 0, [])) \<rparr>"

text \<open>A world in which no file can be written.\<close>

definition readonly_clone :: world where
  "readonly_clone = calm \<lparr> writeFileSync := (\<lambda>h p c. False) \<rparr>"

text \<open>
  The events of a run in the calm world with \<open>dev_opts\<close>, up to the debug log of the first
  package \<open>core_pkg\<close>.
\<close>

definition run_start :: "event list" where
  "run_start =
     [ExecSync git_status_cmd, Mkdtemp ''/tmp/angular-cli-publish-'', ExecSync git_log_cmd,
      Log Root Info ''Setting up global git name.'',
      SpawnSync ''git'' [''config'', ''--global'', ''user.email'', ''circleci@angular.io''] None,
      SpawnSync ''git'' [''config'', ''--global'', ''user.name'', ''Angular Builds''] None,
      SpawnSync ''git'' [''config'', ''--global'', ''push.default'', ''simple''] None,
      CreateTemporaryProject, Log Root Info ''Building...'', Build, JsonHelp ''/tmp/project'',
      Chdir ''/tmp/angular-cli-publish-a1b2c3'',
      Log Root Info (''Publishing core to repo '' @ dq @ ''org/core-builds'' @ dq @ ''.''),
      Log (Child Root ''publish'') Debug ''Temporary directory: /tmp/angular-cli-publish-a1b2c3'']"

text \<open>The clone of \<open>core_pkg\<close>'s mirror, and a git command run in that clone.\<close>

definition core_clone :: event where
  "core_clone = SpawnSync ''git'' [''clone'', ''https://tok@github.com/org/core-builds.git'']
                  (Some ''/tmp/angular-cli-publish-a1b2c3'')"

definition in_core :: "string list \<Rightarrow> event" where
  "in_core args = SpawnSync ''git'' args core_dest"

text \<open>The contents written to the file \<open>p\<close> in a trace, in order.\<close>

fun writes_to :: "string \<Rightarrow> event list \<Rightarrow> string list" where
  "writes_to p [] = []"
| "writes_to p (WriteFile q c # es) = (if q = p then c # writes_to p es else writes_to p es)"
| "writes_to p (e # es) = writes_to p es"







text \<open>
  The events of lines 79 to 88 when the clone succeeds: the two logs and the clone, run in
  the directory \<open>root\<close>.
\<close>

definition clone_steps :: "world \<Rightarrow> PackageInfo \<Rightarrow> logger \<Rightarrow> string \<Rightarrow> string \<Rightarrow> event list" where
  "clone_steps W pkg lg githubToken root =
     [Log lg Info (publishing W pkg),
      Log (Child lg ''publish'') Debug (''Temporary directory: '' @ root),
      SpawnSync ''git'' [''clone'', clone_url githubToken pkg] (Some root)]"

text \<open>
  A world in which \<open>spawnSync\<close> throws when an argument holds a NUL byte, as that of Node
  does, and every other command succeeds; a branch name with such a byte.
\<close>

definition nul_world :: world where
  "nul_world = calm \<lparr> spawnSync := (\<lambda>h c args cwd.
      if list_ex (\<lambda>a. CHR 0x00 \<in> set a) args then None else Some (Some 0, [])) \<rparr>"

definition nul_branch :: string where
  "nul_branch = ''ma'' @ [CHR 0x00] @ ''in''"

text \<open>A token with a NUL byte.\<close>

definition nul_token_opts :: SnapshotsOptions where
  "nul_token_opts = \<lparr> opts_force = None, opts_githubToken = Some (''to'' @ [CHR 0x00] @ ''k''),
                      opts_branch = Some ''dev'' \<rparr>"

definition nul_opts :: SnapshotsOptions where
  "nul_opts = \<lparr> opts_force = None, opts_githubToken = Some ''tok'',
                opts_branch = Some nul_branch \<rparr>"

section \<open>Properties\<close>

subsection \<open>Events of a computation\<close>

lemma emitsI: "(\<And>h. \<exists>es. snd (m h) = h @ es \<and> list_all P es) \<Longrightarrow> emits P m"
  by (simp add: emits_def)

lemma emitsD: "emits P m \<Longrightarrow> \<exists>es. snd (m h) = h @ es \<and> list_all P es"
  by (simp add: emits_def)

lemma emits_mono: "emits P m \<Longrightarrow> (\<And>e. P e \<Longrightarrow> Q e) \<Longrightarrow> emits Q m"
  unfolding emits_def list_all_iff by blast

lemma emits_ret: "emits P (ret x)"
  by (simp add: emits_def ret_def)

lemma emits_throw: "emits P (throw e)"
  by (simp add: emits_def throw_def)

lemma emits_reading: "emits P (reading f)"
  by (simp add: emits_def reading_def)

lemma emits_call: "P e \<Longrightarrow> emits P (call e a)"
  by (simp add: emits_def call_def)

lemma emits_log: "P (Log lg lvl msg) \<Longrightarrow> emits P (log lg lvl msg)"
  by (simp add: log_def emits_call)

lemma emits_bindM:
  assumes m: "emits P m" and k: "\<And>x. emits P (k x)"
  shows "emits P (bindM m k)"
proof (rule emitsI)
  fix h
  obtain r h1 where mh: "m h = (r, h1)" by (cases "m h")
  from emitsD [OF m, of h] mh obtain es1 where h1: "h1 = h @ es1" and p1: "list_all P es1"
    by auto
  show "\<exists>es. snd (bindM m k h) = h @ es \<and> list_all P es"
  proof (cases r)
    case (Inl e)
    with mh h1 p1 show ?thesis by (simp add: bindM_def)
  next
    case (Inr x)
    from emitsD [OF k, of x h1] obtain es2 where "snd (k x h1) = h1 @ es2" and "list_all P es2"
      by auto
    with Inr mh h1 p1 show ?thesis by (simp add: bindM_def)
  qed
qed

lemma emits_thenM: "emits P m \<Longrightarrow> emits P k \<Longrightarrow> emits P (thenM m k)"
  by (simp add: thenM_def emits_bindM)

lemma emits_tryM:
  assumes m: "emits P m" and k: "emits P k"
  shows "emits P (tryM m k)"
proof (rule emitsI)
  fix h
  obtain r h1 where mh: "m h = (r, h1)" by (cases "m h")
  from emitsD [OF m, of h] mh obtain es1 where h1: "h1 = h @ es1" and p1: "list_all P es1"
    by auto
  from emitsD [OF k, of h1] obtain es2 where k2: "snd (k h1) = h1 @ es2" and p2: "list_all P es2"
    by auto
  show "\<exists>es. snd (tryM m k h) = h @ es \<and> list_all P es"
  proof (cases "r = Inl Threw")
    case True
    with mh h1 p1 k2 p2 show ?thesis by (simp add: tryM_def)
  next
    case False
    with mh h1 p1 show ?thesis
      by (auto simp: tryM_def split: sum.splits failure.splits)
  qed
qed

lemma emits_if: "(c \<Longrightarrow> emits P a) \<Longrightarrow> (\<not> c \<Longrightarrow> emits P b) \<Longrightarrow> emits P (if c then a else b)"
  by simp

lemma emits_exec:
  "P (SpawnSync c a d) \<Longrightarrow> P (Log lg Error (command_failed W c a)) \<Longrightarrow> emits P (exec W c a d lg)"
  unfolding exec_def
  by (intro emits_bindM emits_call emits_thenM emits_log emits_throw)
     (auto simp: emits_ret emits_thenM emits_log emits_throw split: prod.splits)

lemma copy_eqs:
  "copy (Suc d) W from to =
     bindM (call (Readdir from) (\<lambda>h. orThrow (readdirSync W h from)))
       (\<lambda>names. copy_each d W from to names)"
  "copy 0 W from to = throw Threw"
  "copy_each d W from to [] = ret ()"
  by (rule ext, simp add: throw_def ret_def)+

lemma emits_copy_at:
  "\<exists>es. snd (copy d W src dst h) = h @ es \<and> list_all copy_event es"
  "\<exists>es. snd (copy_each d W src dst names h) = h @ es \<and> list_all copy_event es"
proof (induction d W src dst h and d W src dst names h rule: copy_copy_each.induct)
  case (1 W src dst h)
  show ?case by simp
next
  case (2 d W src dst h)
  then have "\<And>names. emits copy_event (copy_each d W src dst names)"
    by (simp add: emits_def)
  then have "emits copy_event (copy (Suc d) W src dst)"
    unfolding copy_eqs by (intro emits_bindM emits_call) (simp_all add: copy_event_def)
  then show ?case by (rule emitsD)
next
  case (3 d W src dst h)
  show ?case by simp
next
  case (4 d W src dst nm names h)
  have eq: "copy_each d W src dst (nm # names) =
     thenM
        (bindM (call (Stat (path_join W src nm)) (\<lambda>h. orThrow (statSync_isDirectory W h (path_join W src nm))))
          (\<lambda>isDirectory.
             if isDirectory then
               thenM
                 (bindM (call (Exists (path_join W dst nm)) (\<lambda>h. Inr (existsSync W h (path_join W dst nm))))
                   (\<lambda>ex. if \<not> ex then call (Mkdir (path_join W dst nm)) (\<lambda>h. okOrThrow (mkdirSync W h (path_join W dst nm)))
                         else ret ()))
                 (copy d W (path_join W src nm) (path_join W dst nm))
             else
               bindM (call (ReadFile (path_join W src nm) None)
                        (\<lambda>h. orThrow (readFileSync W h (path_join W src nm) None)))
                 (\<lambda>content. call (WriteFile (path_join W dst nm) content)
                    (\<lambda>h. okOrThrow (writeFileSync W h (path_join W dst nm) content)))))
        (copy_each d W src dst names)"
    by (rule ext) (simp add: Let_def)
  from 4 have a: "emits copy_event (copy d W (path_join W src nm) (path_join W dst nm))"
    and b: "emits copy_event (copy_each d W src dst names)"
    by (simp_all add: emits_def)
  have "emits copy_event (copy_each d W src dst (nm # names))"
    unfolding eq
    by (intro emits_thenM emits_bindM emits_call emits_if emits_ret a b) (simp_all add: copy_event_def)
  then show ?case by (rule emitsD)
qed

lemma copy_event_fs: "copy_event e \<Longrightarrow> fs_event e"
  by (cases e) (simp_all add: copy_event_def fs_event_def)

lemma emits_copy:
  assumes "\<And>e. fs_event e \<Longrightarrow> P e"
  shows "emits P (copy d W src dst)"
proof (rule emits_mono [of copy_event])
  show "emits copy_event (copy d W src dst)"
    by (simp add: emits_def emits_copy_at)
  show "P e" if "copy_event e" for e
    using that assms copy_event_fs by blast
qed

lemma emits_checkout_branch:
  "snapshot pkg \<Longrightarrow> emits (publish_event tok b msg pkg) (checkout_branch W b (d::string) lg)"
  unfolding checkout_branch_def
  by (intro emits_if emits_tryM emits_thenM emits_exec emits_ret)
     (simp_all add: publish_event_def publish_args_def)

lemma emits_clear_snapshot:
  "snapshot pkg \<Longrightarrow> emits (publish_event tok b msg pkg) (clear_snapshot W d lg)"
  unfolding clear_snapshot_def
  by (intro emits_if emits_tryM emits_thenM emits_exec emits_ret)
     (simp_all add: publish_event_def publish_args_def)

lemma emits_write_readme: "emits fs_event (write_readme W pkg d)"
  unfolding write_readme_def Let_def
  by (intro emits_bindM emits_tryM emits_call emits_ret) (simp_all add: fs_event_def)

lemma emits_write_uniqueId: "emits fs_event (write_uniqueId W d)"
  unfolding write_uniqueId_def Let_def
  by (intro emits_bindM emits_reading emits_call) (simp_all add: fs_event_def)

lemma emits_commit_and_push:
  "snapshot pkg \<Longrightarrow> emits (publish_event tok b msg pkg) (commit_and_push W pkg b msg d lg)"
  unfolding commit_and_push_def
  by (intro emits_thenM emits_exec emits_ret)
     (simp_all add: publish_event_def publish_args_def)

lemma fs_publish_event: "snapshot pkg \<Longrightarrow> fs_event e \<Longrightarrow> publish_event tok b msg pkg e"
  by (auto simp: publish_event_def fs_event_def split: event.splits)

lemma emits_publishSnapshot:
  "emits (publish_event tok b msg pkg) (publishSnapshot W pkg b msg lg tok)"
proof (cases "snapshot pkg")
  case False
  then show ?thesis
    by (simp add: publishSnapshot_def emits_log publish_event_def)
next
  case True
  note fs = fs_publish_event [OF True]
  show ?thesis
    unfolding publishSnapshot_def Let_def
    apply (simp only: True not_True_eq_False if_False)
    apply (intro emits_thenM emits_bindM emits_reading emits_log emits_if emits_ret
        emits_checkout_branch emits_clear_snapshot emits_commit_and_push emits_exec
        emits_copy [OF fs] emits_mono [OF emits_write_readme fs]
        emits_mono [OF emits_write_uniqueId fs] True)
    apply (simp_all add: publish_event_def publish_args_def True)
    done
qed

lemma publish_run_event:
  "pkg \<in> set pkgs \<Longrightarrow> tok \<noteq> [] \<Longrightarrow> publish_event tok b msg pkg e \<Longrightarrow> run_event pkgs tok b msg e"
  by (cases e) (auto simp: run_event_def publish_event_def list_ex_iff fs_event_def)

lemma run_event_Cons: "run_event pkgs tok b msg e \<Longrightarrow> run_event (pkg # pkgs) tok b msg e"
  by (cases e) (auto simp: run_event_def)

lemma emits_publish_all_at:
  "tok \<noteq> [] \<Longrightarrow>
   \<exists>es. snd (publish_all W root pkgs b msg lg tok h) = h @ es \<and> list_all (run_event pkgs tok b msg) es"
proof (induction pkgs arbitrary: h)
  case Nil
  show ?case by simp
next
  case (Cons pkg pkgs)
  have eq: "publish_all W root (pkg # pkgs) b msg lg tok =
     thenM (call (Chdir root) (\<lambda>h. okOrThrow (process_chdir W h root)))
    (thenM (publishSnapshot W pkg b msg lg tok) (publish_all W root pkgs b msg lg tok))"
    by (rule ext) simp
  have rest: "emits (run_event (pkg # pkgs) tok b msg) (publish_all W root pkgs b msg lg tok)"
    by (rule emits_mono [of "run_event pkgs tok b msg"])
       (simp_all add: emits_def Cons run_event_Cons)
  have one: "emits (run_event (pkg # pkgs) tok b msg) (publishSnapshot W pkg b msg lg tok)"
    by (rule emits_mono [OF emits_publishSnapshot])
       (rule publish_run_event [of pkg "pkg # pkgs"], simp_all add: Cons.prems)
  have "emits (run_event (pkg # pkgs) tok b msg) (publish_all W root (pkg # pkgs) b msg lg tok)"
    unfolding eq
    by (intro emits_thenM emits_call one rest) (simp add: run_event_def Cons.prems)
  then show ?case by (rule emitsD)
qed

lemma emits_publish_all:
  "tok \<noteq> [] \<Longrightarrow> emits (run_event pkgs tok b msg) (publish_all W root pkgs b msg lg tok)"
  by (simp add: emits_def emits_publish_all_at)

lemma emits_publish_all_ex:
  "tok \<noteq> [] \<Longrightarrow>
   emits (\<lambda>e. \<exists>msg. run_event pkgs tok b msg e) (publish_all W root pkgs b m lg tok)"
  by (rule emits_mono [OF emits_publish_all]) blast+

lemma emits_precondition_check:
  "emits (run_event pkgs tok b msg) (precondition_check W opts lg)"
  unfolding precondition_check_def
  by (intro emits_bindM emits_thenM emits_if emits_call emits_log emits_throw emits_ret)
     (simp_all add: run_event_def)

lemma emits_snapshots_run:
  "emits (\<lambda>e. \<exists>msg. run_event pkgs (resolve_token W opts) (resolve_branch W opts) msg e)
     (snapshots_run W pkgs opts lg)"
  unfolding snapshots_run_def Let_def
  apply (intro emits_bindM emits_thenM emits_if emits_call emits_log emits_throw emits_ret
      emits_reading emits_exec emits_publish_all_ex)
  apply (simp_all add: run_event_def global_config_def)
  done

lemma emits_snapshots:
  "emits (\<lambda>e. \<exists>msg. run_event pkgs (resolve_token W opts) (resolve_branch W opts) msg e)
     (snapshots W pkgs opts lg)"
  unfolding snapshots_def
  by (intro emits_thenM emits_snapshots_run emits_mono [OF emits_precondition_check]) blast

subsection \<open>Failures end the run\<close>

lemma ffI: "(\<And>h. \<exists>es. snd (m h) = h @ es \<and> fail_fast W b h es (failure_of (fst (m h)))) \<Longrightarrow> fails_fast W b m"
  by (simp add: fails_fast_def)

lemma ffD: "fails_fast W b m \<Longrightarrow> \<exists>es. snd (m h) = h @ es \<and> fail_fast W b h es (failure_of (fst (m h)))"
  by (simp add: fails_fast_def)

lemma only_failure_log_iff: "only_failure_log msg es \<longleftrightarrow> (\<exists>lg. es = [Log lg Error msg])"
  by (induction msg es rule: only_failure_log.induct) auto

lemma fail_fast_append:
  "fail_fast W b h es1 None \<Longrightarrow> fail_fast W b (h @ es1) es2 f \<Longrightarrow> fail_fast W b h (es1 @ es2) f"
proof (induction es1 arbitrary: h)
  case Nil
  then show ?case by simp
next
  case (Cons e es1)
  then show ?case by (cases e) (auto split: if_splits)
qed

lemma failure_log_cases:
  "failure_log W lg h c a d = [] \<or> failure_log W lg h c a d = [Log lg Error (command_failed W c a)]"
  by (simp add: failure_log_def split: option.splits)

lemma fail_fast_stops:
  assumes "fail_fast W b h (e # es) f" and "\<not> fail_fast W b (h @ [e]) es f"
  shows "es = [] \<or> (\<exists>lg msg. es = [Log lg Error msg])"
  using assms by (cases e) (auto simp: only_failure_log_iff split: if_splits option.splits)

lemma fail_fast_spawn:
  assumes "fail_fast W b h (pre @ SpawnSync c a d # post) f"
    and "\<not> succeeded W (h @ pre) c a d" and "\<not> tolerated b a"
  shows "f = Some Threw \<and> (\<exists>lg. post = failure_log W lg (h @ pre) c a d)"
  using assms
proof (induction pre arbitrary: h)
  case Nil
  then show ?case
    by (auto simp: only_failure_log_iff failure_log_def split: option.splits)
next
  case (Cons e pre)
  show ?case
  proof (cases "fail_fast W b (h @ [e]) (pre @ SpawnSync c a d # post) f")
    case True
    from Cons.IH [OF True] Cons.prems show ?thesis by simp
  next
    case False
    from fail_fast_stops [OF _ False] Cons.prems(1)
    have "pre @ SpawnSync c a d # post = []
        \<or> (\<exists>lg msg. pre @ SpawnSync c a d # post = [Log lg Error msg])"
      by simp
    then have False by (cases pre) auto
    then show ?thesis ..
  qed
qed

lemma fail_fast_fs:
  assumes "fail_fast W b h (pre @ e # post) f" and "fs_failed W (h @ pre) e"
  shows "f = Some Threw \<and> post = []"
  using assms
proof (induction pre arbitrary: h)
  case Nil
  then show ?case by simp
next
  case (Cons e' pre)
  show ?case
  proof (cases "fail_fast W b (h @ [e']) (pre @ e # post) f")
    case True
    from Cons.IH [OF True] Cons.prems show ?thesis by simp
  next
    case False
    from fail_fast_stops [OF _ False] Cons.prems(1)
    have "pre @ e # post = [] \<or> (\<exists>lg msg. pre @ e # post = [Log lg Error msg])"
      by simp
    with Cons.prems(2) have False
      by (cases pre) auto
    then show ?thesis ..
  qed
qed

lemma ff_ret: "fails_fast W b (ret x)"
  by (simp add: fails_fast_def ret_def)

lemma ff_throw: "fails_fast W b (throw e)"
  by (simp add: fails_fast_def throw_def)

lemma ff_reading: "fails_fast W b (reading f)"
  by (simp add: fails_fast_def reading_def)

lemma ff_call:
  assumes "\<And>c a d. e \<noteq> SpawnSync c a d" and "\<And>h. fs_failed W h e \<Longrightarrow> a h = Inl Threw"
  shows "fails_fast W b (call e a)"
  using assms by (cases e) (auto simp: fails_fast_def call_def failure_of_def)

lemma ff_log: "fails_fast W b (log lg lvl msg)"
  unfolding log_def by (rule ff_call) simp_all

lemma ff_bindM:
  assumes m: "fails_fast W b m" and k: "\<And>x. fails_fast W b (k x)"
  shows "fails_fast W b (bindM m k)"
proof (rule ffI)
  fix h
  obtain r h1 where mh: "m h = (r, h1)" by (cases "m h")
  from ffD [OF m, of h] mh obtain es1 where h1: "h1 = h @ es1"
    and p1: "fail_fast W b h es1 (failure_of r)"
    by auto
  show "\<exists>es. snd (bindM m k h) = h @ es \<and> fail_fast W b h es (failure_of (fst (bindM m k h)))"
  proof (cases r)
    case (Inl e)
    with mh h1 p1 show ?thesis by (simp add: bindM_def failure_of_def)
  next
    case (Inr x)
    from ffD [OF k, of x h1] obtain es2 where k2: "snd (k x h1) = h1 @ es2"
      and p2: "fail_fast W b h1 es2 (failure_of (fst (k x h1)))"
      by auto
    from p1 Inr have "fail_fast W b h es1 None" by (simp add: failure_of_def)
    from fail_fast_append [OF this] p2 h1
    have "fail_fast W b h (es1 @ es2) (failure_of (fst (k x h1)))" by simp
    with Inr mh h1 k2 show ?thesis by (simp add: bindM_def)
  qed
qed

lemma ff_thenM: "fails_fast W b m \<Longrightarrow> fails_fast W b k \<Longrightarrow> fails_fast W b (thenM m k)"
  by (simp add: thenM_def ff_bindM)

lemma ff_if: "(c \<Longrightarrow> fails_fast W b x) \<Longrightarrow> (\<not> c \<Longrightarrow> fails_fast W b y) \<Longrightarrow> fails_fast W b (if c then x else y)"
  by simp

lemma exec_eq:
  "exec W c a d lg h =
     (if succeeded W h c a d
      then (Inr (snd (the (spawnSync W h c a d))), h @ [SpawnSync c a d])
      else (Inl Threw, h @ SpawnSync c a d # failure_log W lg h c a d))"
  by (simp add: exec_def bindM_def thenM_def call_def log_def throw_def ret_def orThrow_def
      succeeded_def failure_log_def split: prod.splits option.splits)

lemma exec_Inr:
  "exec W c a d lg h = (Inr out, h') \<longleftrightarrow>
     spawnSync W h c a d = Some (Some 0, out) \<and> h' = h @ [SpawnSync c a d]"
  by (auto simp: exec_eq succeeded_def split: option.splits)

lemma fail_fast_failure_log: "fail_fast W b h (failure_log W lg h' c a d) None"
  by (simp add: failure_log_def split: option.splits)

lemma ff_exec: "\<not> tolerated b a \<Longrightarrow> fails_fast W b (exec W c a d lg)"
  by (simp add: fails_fast_def exec_eq failure_of_def failure_log_def split: option.splits)

lemma clear_snapshot_eq:
  "clear_snapshot W d lg h =
     (Inr (), h @ SpawnSync ''git'' [''rm'', ''-rf'', ''./''] (Some d) #
        (if succeeded W h ''git'' [''rm'', ''-rf'', ''./''] (Some d) then []
         else failure_log W lg h ''git'' [''rm'', ''-rf'', ''./''] (Some d)))"
  by (simp add: clear_snapshot_def tryM_def thenM_def bindM_def exec_eq ret_def)

lemma ff_clear_snapshot: "fails_fast W b (clear_snapshot W d lg)"
  by (simp add: fails_fast_def clear_snapshot_eq failure_of_def tolerated_def
      fail_fast_failure_log)

lemma checkout_branch_eq:
  "checkout_branch W b d lg h =
     (if b = [] then (Inr (), h)
      else if succeeded W h ''git'' [''checkout'', b] (Some d)
      then (Inr (), h @ [SpawnSync ''git'' [''checkout'', b] (Some d)])
      else let h1 = h @ SpawnSync ''git'' [''checkout'', b] (Some d) #
                        failure_log W lg h ''git'' [''checkout'', b] (Some d)
           in if succeeded W h1 ''git'' [''checkout'', ''-b'', b] (Some d)
              then (Inr (), h1 @ [SpawnSync ''git'' [''checkout'', ''-b'', b] (Some d)])
              else (Inl Threw, h1 @ SpawnSync ''git'' [''checkout'', ''-b'', b] (Some d) #
                      failure_log W lg h1 ''git'' [''checkout'', ''-b'', b] (Some d)))"
  by (simp add: checkout_branch_def tryM_def thenM_def bindM_def exec_eq ret_def Let_def)

lemma ff_checkout_branch: "fails_fast W b (checkout_branch W b d lg)"
proof (rule ffI)
  fix h
  have a: "fail_fast W b (h @ [SpawnSync ''git'' [''checkout'', b] (Some d)])
             (failure_log W lg h ''git'' [''checkout'', b] (Some d) @ es) f
           = fail_fast W b (h @ SpawnSync ''git'' [''checkout'', b] (Some d) #
                failure_log W lg h ''git'' [''checkout'', b] (Some d)) es f" for es f
    by (simp add: failure_log_def split: option.splits)
  have c: "fail_fast W b h1 (SpawnSync ''git'' [''checkout'', ''-b'', b] (Some d) #
             failure_log W lg h1 ''git'' [''checkout'', ''-b'', b] (Some d)) (Some Threw)"
    if "\<not> succeeded W h1 ''git'' [''checkout'', ''-b'', b] (Some d)" for h1
    using that by (simp add: failure_log_def tolerated_def split: option.splits)
  show "\<exists>es. snd (checkout_branch W b d lg h) = h @ es \<and>
          fail_fast W b h es (failure_of (fst (checkout_branch W b d lg h)))"
    using a [of "[]"] a [of "[SpawnSync ''git'' [''checkout'', ''-b'', b] (Some d)]"]
      a [of "SpawnSync ''git'' [''checkout'', ''-b'', b] (Some d) #
          failure_log W lg (h @ SpawnSync ''git'' [''checkout'', b] (Some d) #
                failure_log W lg h ''git'' [''checkout'', b] (Some d)) ''git'' [''checkout'', ''-b'', b] (Some d)"]
      c [of "h @ SpawnSync ''git'' [''checkout'', b] (Some d) #
                failure_log W lg h ''git'' [''checkout'', b] (Some d)"]
    by (simp add: checkout_branch_eq Let_def failure_of_def tolerated_def)
qed

lemma ff_commit_and_push: "fails_fast W b (commit_and_push W pkg b msg d lg)"
  unfolding commit_and_push_def
  by (intro ff_thenM ff_exec ff_ret) (simp_all add: tolerated_def)

lemma write_readme_eq:
  "write_readme W pkg d h =
     (let p = path_join W d ''README.md'';
          readme = readmeHeaderFn pkg @
            (case readFileSync W h p (Some ''utf-8'') of None \<Rightarrow> [] | Some old \<Rightarrow> old)
      in (okOrThrow (writeFileSync W (h @ [ReadFile p (Some ''utf-8'')]) p readme),
          h @ [ReadFile p (Some ''utf-8''), WriteFile p readme]))"
  by (simp add: write_readme_def Let_def bindM_def tryM_def call_def ret_def orThrow_def
      split: option.splits)

lemma write_uniqueId_eq:
  "write_uniqueId W d h =
     (let p = path_join W d ''uniqueId'' in
      (okOrThrow (writeFileSync W h p (Date_string W h)), h @ [WriteFile p (Date_string W h)]))"
  by (simp add: write_uniqueId_def Let_def bindM_def reading_def call_def)

lemma ff_write_readme: "fails_fast W b (write_readme W pkg d)"
  by (simp add: fails_fast_def write_readme_eq Let_def failure_of_def okOrThrow_def)

lemma ff_write_uniqueId: "fails_fast W b (write_uniqueId W d)"
  by (simp add: fails_fast_def write_uniqueId_eq Let_def failure_of_def okOrThrow_def)

lemma ff_copy_at:
  "\<exists>es. snd (copy d W src dst h) = h @ es \<and>
     fail_fast W b h es (failure_of (fst (copy d W src dst h)))"
  "\<exists>es. snd (copy_each d W src dst names h) = h @ es \<and>
     fail_fast W b h es (failure_of (fst (copy_each d W src dst names h)))"
proof (induction d W src dst h and d W src dst names h rule: copy_copy_each.induct)
  case (1 W src dst h)
  show ?case by simp
next
  case (2 d W src dst h)
  then have "\<And>names. fails_fast W b (copy_each d W src dst names)"
    by (simp add: fails_fast_def)
  then have "fails_fast W b (copy (Suc d) W src dst)"
    unfolding copy_eqs by (intro ff_bindM ff_call) (simp_all add: orThrow_def)
  then show ?case by (rule ffD)
next
  case (3 d W src dst h)
  show ?case by simp
next
  case (4 d W src dst nm names h)
  have eq: "copy_each d W src dst (nm # names) =
     thenM
        (bindM (call (Stat (path_join W src nm)) (\<lambda>h. orThrow (statSync_isDirectory W h (path_join W src nm))))
          (\<lambda>isDirectory.
             if isDirectory then
               thenM
                 (bindM (call (Exists (path_join W dst nm)) (\<lambda>h. Inr (existsSync W h (path_join W dst nm))))
                   (\<lambda>ex. if \<not> ex then call (Mkdir (path_join W dst nm)) (\<lambda>h. okOrThrow (mkdirSync W h (path_join W dst nm)))
                         else ret ()))
                 (copy d W (path_join W src nm) (path_join W dst nm))
             else
               bindM (call (ReadFile (path_join W src nm) None)
                        (\<lambda>h. orThrow (readFileSync W h (path_join W src nm) None)))
                 (\<lambda>content. call (WriteFile (path_join W dst nm) content)
                    (\<lambda>h. okOrThrow (writeFileSync W h (path_join W dst nm) content)))))
        (copy_each d W src dst names)"
    by (rule ext) (simp add: Let_def)
  from 4 have a: "fails_fast W b (copy d W (path_join W src nm) (path_join W dst nm))"
    and c: "fails_fast W b (copy_each d W src dst names)"
    by (simp_all add: fails_fast_def)
  have "fails_fast W b (copy_each d W src dst (nm # names))"
    unfolding eq
    by (intro ff_thenM ff_bindM ff_call ff_if ff_ret a c) (simp_all add: orThrow_def okOrThrow_def)
  then show ?case by (rule ffD)
qed

lemma ff_copy: "fails_fast W b (copy d W src dst)"
  by (simp add: fails_fast_def ff_copy_at)

lemma ff_publishSnapshot: "fails_fast W b (publishSnapshot W pkg b msg lg tok)"
  unfolding publishSnapshot_def Let_def
  apply (intro ff_if ff_log ff_thenM ff_bindM ff_reading ff_exec ff_ret ff_checkout_branch
      ff_clear_snapshot ff_commit_and_push ff_copy ff_write_readme ff_write_uniqueId)
  apply (simp_all add: tolerated_def)
  done

lemma ff_publish_all_at:
  "\<exists>es. snd (publish_all W root pkgs b msg lg tok h) = h @ es \<and>
     fail_fast W b h es (failure_of (fst (publish_all W root pkgs b msg lg tok h)))"
proof (induction pkgs arbitrary: h)
  case Nil
  show ?case by simp
next
  case (Cons pkg pkgs)
  have eq: "publish_all W root (pkg # pkgs) b msg lg tok =
     thenM (call (Chdir root) (\<lambda>h. okOrThrow (process_chdir W h root)))
    (thenM (publishSnapshot W pkg b msg lg tok) (publish_all W root pkgs b msg lg tok))"
    by (rule ext) simp
  have rest: "fails_fast W b (publish_all W root pkgs b msg lg tok)"
    by (simp add: fails_fast_def Cons)
  have "fails_fast W b (publish_all W root (pkg # pkgs) b msg lg tok)"
    unfolding eq
    by (intro ff_thenM ff_call ff_publishSnapshot rest) simp_all
  then show ?case by (rule ffD)
qed

lemma ff_precondition_check: "fails_fast W b (precondition_check W opts lg)"
  unfolding precondition_check_def
  by (intro ff_bindM ff_thenM ff_if ff_call ff_log ff_throw ff_ret) simp_all

lemma ff_snapshots_run: "fails_fast W (resolve_branch W opts) (snapshots_run W pkgs opts lg)"
  unfolding snapshots_run_def Let_def
  apply (intro ff_bindM ff_thenM ff_if ff_call ff_log ff_throw ff_ret ff_reading ff_exec)
  apply (simp_all add: tolerated_def fails_fast_def ff_publish_all_at)
  done

lemma ff_snapshots: "fails_fast W (resolve_branch W opts) (snapshots W pkgs opts lg)"
  unfolding snapshots_def
  by (intro ff_thenM ff_precondition_check ff_snapshots_run)

subsection \<open>Evaluation in the concrete worlds\<close>

lemma calm_sel:
  "env_CIRCLE_BRANCH calm = None"
  "env_SNAPSHOT_BUILDS_GITHUB_TOKEN calm = None"
  "execSync calm h c = Some (if c = git_log_cmd then ''abc1234 fix build'' @ nl else [])"
  "spawnSync calm h c a d = Some (Some 0, [])"
  "os_tmpdir calm h = ''/tmp''"
  "path_join calm x y = x @ ''/'' @ y"
  "path_basename calm p = rev (takeWhile (\<lambda>c. c \<noteq> CHR ''/'') (rev p))"
  "JSON_stringify calm s = dq @ s @ dq"
  "mkdtempSync calm h p = Some (p @ ''a1b2c3'')"
  "process_cwd calm h = ''/tmp/angular-cli-publish-a1b2c3''"
  "process_chdir calm h p = True"
  "readdirSync calm h p = Some []"
  "statSync_isDirectory calm h p = None"
  "existsSync calm h p = False"
  "mkdirSync calm h p = True"
  "readFileSync calm h p enc = None"
  "writeFileSync calm h p c = True"
  "Date_string calm h = ''Sun Nov 01 2026 10:00:00 GMT+0000 (Coordinated Universal Time)''"
  "call_stack calm = Suc (Suc (Suc 0))"
  "createTemporaryProject calm h = Inr ''/tmp/project''"
  "build calm h = Inr ()"
  "jsonHelp calm h p = Inr ()"
  by (simp_all add: calm_def eval_nat_numeral)

lemmas io_defs = bindM_def thenM_def tryM_def call_def reading_def ret_def throw_def log_def
  orThrow_def okOrThrow_def

lemmas run_defs = snapshots_def precondition_check_def snapshots_run_def publishSnapshot_def
  checkout_branch_def clear_snapshot_def write_readme_def write_uniqueId_def commit_and_push_def
  exec_def resolve_branch_def resolve_token_def or_else_def or_default_def truthy_def trim_def
  white_space_def git_status_cmd_def git_log_cmd_def clone_url_def command_failed_def Let_def
  core_pkg_def docs_pkg_def no_opts_def nl_def dq_def tmp_prefix_def

subsection \<open>The precondition check\<close>

lemma extends_bindM:
  assumes "\<exists>es. snd (m h) = h @ e # es" and "\<And>x. emits (\<lambda>_. True) (k x)"
  shows "\<exists>es. snd (bindM m k h) = h @ e # es"
proof -
  obtain r h1 where mh: "m h = (r, h1)" by (cases "m h")
  with assms(1) obtain es1 where h1: "h1 = h @ e # es1" by auto
  show ?thesis
  proof (cases r)
    case (Inl x)
    with mh h1 show ?thesis by (simp add: bindM_def)
  next
    case (Inr x)
    from emitsD [OF assms(2), of x h1] obtain es2 where "snd (k x h1) = h1 @ es2" by auto
    with Inr mh h1 show ?thesis by (simp add: bindM_def)
  qed
qed

lemma snapshots_run_first:
  "\<exists>es. snd (snapshots_run W pkgs opts lg h) = h @ Mkdtemp (tmp_prefix W h) # es"
  unfolding snapshots_run_def Let_def
  apply (rule extends_bindM)
   apply (simp add: bindM_def reading_def call_def tmp_prefix_def)
  apply (intro emits_bindM emits_thenM emits_if emits_call emits_log emits_throw emits_ret
      emits_reading emits_exec emits_mono [OF emits_publish_all])
  apply simp_all
  done

text \<open>
  C2. When \<open>git status --porcelain\<close> prints something and \<open>force\<close> is not set, the run logs
  the error and exits with code 1; the only events are the status command and the log, so no
  temporary directory has been made and nothing was changed. With \<open>force\<close> set, the same
  invocation goes on with the rest of the function, whose first event is the creation of the
  temporary directory.
\<close>

theorem dirty_tree_needs_force:
  assumes "execSync W h git_status_cmd = Some out" and "out \<noteq> []"
  shows "(opts_force opts \<noteq> Some True \<longrightarrow>
            snapshots W pkgs opts lg h =
              (Inl (Exited 1),
               h @ [ExecSync git_status_cmd,
                    Log lg Error ''You cannot run snapshots with local changes.'']))
       \<and> (opts_force opts = Some True \<longrightarrow>
            snapshots W pkgs opts lg h = snapshots_run W pkgs opts lg (h @ [ExecSync git_status_cmd])
          \<and> (\<exists>es. snd (snapshots W pkgs opts lg h) =
                 h @ [ExecSync git_status_cmd, Mkdtemp (tmp_prefix W (h @ [ExecSync git_status_cmd]))]
                   @ es))"
proof -
  have run: "snapshots W pkgs opts lg h = snapshots_run W pkgs opts lg (h @ [ExecSync git_status_cmd])"
    if "opts_force opts = Some True"
    using assms that
    by (simp add: snapshots_def precondition_check_def thenM_def bindM_def call_def orThrow_def
        ret_def)
  have stop: "snapshots W pkgs opts lg h =
      (Inl (Exited 1),
       h @ [ExecSync git_status_cmd, Log lg Error ''You cannot run snapshots with local changes.''])"
    if "opts_force opts \<noteq> Some True"
    using assms that
    by (simp add: snapshots_def precondition_check_def thenM_def bindM_def call_def orThrow_def
        log_def throw_def)
  from snapshots_run_first [of W pkgs opts lg "h @ [ExecSync git_status_cmd]"]
  show ?thesis using run stop by auto
qed

theorem dirty_tree_needs_force_witness:
  "snapshots dirty [core_pkg] no_opts Root [] =
     (Inl (Exited 1),
      [ExecSync ''git status --porcelain'',
       Log Root Error ''You cannot run snapshots with local changes.''])
   \<and> (\<exists>es. snd (snapshots dirty [core_pkg] (no_opts \<lparr> opts_force := Some True \<rparr>) Root []) =
          [ExecSync ''git status --porcelain'', Mkdtemp ''/tmp/angular-cli-publish-''] @ es)"
  using dirty_tree_needs_force [of dirty "[]" "'' M README.md'' @ nl" no_opts "[core_pkg]" Root]
    dirty_tree_needs_force [of dirty "[]" "'' M README.md'' @ nl"
      "no_opts \<lparr> opts_force := Some True \<rparr>" "[core_pkg]" Root]
  by (auto simp: dirty_def calm_sel git_status_cmd_def no_opts_def nl_def tmp_prefix_def)

subsection \<open>Packages that are not snapshotted\<close>

text \<open>
  C5. For a package whose \<open>snapshot\<close> is false, \<open>_publishSnapshot\<close> returns at once: its
  only event is the warning, so no command is spawned and the file system is not touched.
  In the loop over the table the run then goes on with the rest of the table (the change of
  directory belongs to the loop, not to the package's sequence).
\<close>

theorem unsnapshotted_package_skipped:
  assumes "\<not> snapshot pkg"
  shows "publishSnapshot W pkg branch message lg githubToken h =
           (Inr (), h @ [Log lg Warn (skip_message pkg)])
       \<and> (process_chdir W h root \<longrightarrow>
            publish_all W root (pkg # pkgs) branch message lg githubToken h =
              publish_all W root pkgs branch message lg githubToken
                (h @ [Chdir root, Log lg Warn (skip_message pkg)]))"
  using assms
  by (simp add: publishSnapshot_def skip_message_def io_defs)

theorem unsnapshotted_package_skipped_witness:
  "publishSnapshot calm docs_pkg ''main'' ''abc1234 fix build'' Root ''tok'' [] =
     (Inr (), [Log Root Warn ''Skipping docs.''])
   \<and> publish_all calm ''/tmp/x'' [docs_pkg, docs_pkg] ''main'' ''abc1234 fix build'' Root ''tok'' [] =
       (Inr (), [Chdir ''/tmp/x'', Log Root Warn ''Skipping docs.'',
                 Chdir ''/tmp/x'', Log Root Warn ''Skipping docs.''])"
  using unsnapshotted_package_skipped [where pkg = docs_pkg and W = calm and h = "[]"
      and root = "''/tmp/x''" and pkgs = "[docs_pkg]" and branch = "''main''"
      and message = "''abc1234 fix build''" and lg = Root and githubToken = "''tok''"]
    unsnapshotted_package_skipped [where pkg = docs_pkg and W = calm
      and h = "[Chdir ''/tmp/x'', Log Root Warn ''Skipping docs.'']"
      and root = "''/tmp/x''" and pkgs = "[]" and branch = "''main''"
      and message = "''abc1234 fix build''" and lg = Root and githubToken = "''tok''"]
  by (simp add: docs_pkg_def skip_message_def calm_sel)

subsection \<open>The branch\<close>

lemma publish_args_uses_branch:
  "publish_args tok b msg pkg args \<Longrightarrow> uses_branch b (SpawnSync c args cwd)"
  unfolding publish_args_def uses_branch_def
  by (elim disjE conjE) simp_all

lemma global_config_uses_branch:
  "args \<in> set global_config \<Longrightarrow> uses_branch b (SpawnSync c args cwd)"
  unfolding global_config_def uses_branch_def
  by (elim disjE conjE | simp)+

lemma run_event_spawn:
  assumes "run_event pkgs tok b msg (SpawnSync c args cwd)"
  shows "tok \<noteq> [] \<and> c = ''git'' \<and>
         (if cwd = None then args \<in> set global_config
          else \<exists>pkg\<in>set pkgs. snapshot pkg \<and> publish_args tok b msg pkg args)"
  using assms
  by (simp add: run_event_def publish_event_def list_ex_iff split: if_splits) blast+

lemma run_event_uses_branch: "run_event pkgs tok b msg e \<Longrightarrow> uses_branch b e"
proof (cases e)
  case (SpawnSync c args cwd)
  assume "run_event pkgs tok b msg e"
  from run_event_spawn [OF this [unfolded SpawnSync]] show ?thesis
    unfolding SpawnSync
    by (cases "cwd = None") (auto intro: publish_args_uses_branch global_config_uses_branch)
qed (simp_all add: uses_branch_def)


text \<open>
  C1, as stated, fails: on the CI, with \<open>CIRCLE_BRANCH = ci\<close> and the explicit option
  \<open>branch = dev\<close>, the branch is \<open>ci\<close>; the run checks out \<open>ci\<close> and never \<open>dev\<close>.
\<close>

theorem branch_resolution_counterexample:
  "resolve_branch ci_world dev_opts = ''ci''
   \<and> SpawnSync ''git'' [''checkout'', ''ci''] core_dest
        \<in> set (snd (snapshots ci_world [core_pkg] dev_opts Root []))
   \<and> SpawnSync ''git'' [''checkout'', ''dev''] core_dest
        \<notin> set (snd (snapshots ci_world [core_pkg] dev_opts Root []))"
  by (simp add: ci_world_def dev_opts_def core_dest_def run_defs io_defs calm_sel)

text \<open>
  C1, amended. The branch is the value of \<open>CIRCLE_BRANCH\<close> whenever that variable is set
  (also over an explicit option); otherwise the \<open>branch\<close> option when it is given and not
  empty; otherwise \<open>main\<close>. Every checkout and every push of the run names that branch.
\<close>

theorem branch_resolution:
  "resolve_branch W opts =
     (case env_CIRCLE_BRANCH W of
        Some ci \<Rightarrow> ci
      | None \<Rightarrow> (case opts_branch opts of
                   None \<Rightarrow> ''main''
                 | Some b \<Rightarrow> if b = [] then ''main'' else b))
   \<and> emits (uses_branch (resolve_branch W opts)) (snapshots W pkgs opts lg)"
proof
  show "resolve_branch W opts =
     (case env_CIRCLE_BRANCH W of
        Some ci \<Rightarrow> ci
      | None \<Rightarrow> (case opts_branch opts of
                   None \<Rightarrow> ''main''
                 | Some b \<Rightarrow> if b = [] then ''main'' else b))"
    by (simp add: resolve_branch_def or_default_def split: option.splits)
  show "emits (uses_branch (resolve_branch W opts)) (snapshots W pkgs opts lg)"
    by (rule emits_mono [OF emits_snapshots]) (blast intro: run_event_uses_branch)
qed

theorem branch_resolution_witness:
  "resolve_branch calm dev_opts = ''dev''
   \<and> emits (uses_branch ''dev'') (snapshots calm [core_pkg] dev_opts Root)
   \<and> SpawnSync ''git'' [''checkout'', ''dev''] core_dest
        \<in> set (snd (snapshots calm [core_pkg] dev_opts Root []))"
proof -
  have b: "resolve_branch calm dev_opts = ''dev''"
    by (simp add: resolve_branch_def or_default_def dev_opts_def calm_sel)
  have run: "SpawnSync ''git'' [''checkout'', ''dev''] core_dest
        \<in> set (snd (snapshots calm [core_pkg] dev_opts Root []))"
    by (simp add: dev_opts_def core_dest_def run_defs io_defs calm_sel)
  have "emits (uses_branch (resolve_branch calm dev_opts)) (snapshots calm [core_pkg] dev_opts Root)"
    using branch_resolution [of calm dev_opts "[core_pkg]" Root] by (rule conjunct2)
  from this [unfolded b] b run show ?thesis by blast
qed

subsection \<open>The credential\<close>

lemma publish_args_uses_token:
  "publish_args tok b msg pkg args \<Longrightarrow> tok \<noteq> [] \<Longrightarrow> pkg \<in> set pkgs \<Longrightarrow>
   uses_token pkgs tok (SpawnSync c args cwd)"
  unfolding publish_args_def uses_token_def
  by (elim disjE conjE) (auto simp: list_ex_iff clone_url_def)

lemma global_config_uses_token:
  "args \<in> set global_config \<Longrightarrow> tok \<noteq> [] \<Longrightarrow> uses_token pkgs tok (SpawnSync c args cwd)"
  unfolding global_config_def uses_token_def
  by (elim disjE conjE | simp)+

lemma run_event_uses_token: "run_event pkgs tok b msg e \<Longrightarrow> uses_token pkgs tok e"
proof (cases e)
  case (SpawnSync c args cwd)
  assume "run_event pkgs tok b msg e"
  from run_event_spawn [OF this [unfolded SpawnSync]] show ?thesis
    unfolding SpawnSync
    by (cases "cwd = None") (auto intro: publish_args_uses_token global_config_uses_token)
qed (simp_all add: uses_token_def)

lemma strip_decomp: "\<exists>ps. set ps \<subseteq> set ws \<and> s = concat ps @ strip ws s"
proof (induction ws s rule: strip.induct)
  case (1 ws)
  show ?case by (rule exI [of _ "[]"]) simp
next
  case (2 ws c cs)
  have step: "\<exists>ps. set ps \<subseteq> set ws \<and> c # cs = concat ps @ strip ws (c # cs)"
    if w: "c # take n cs \<in> set ws" and s: "strip ws (c # cs) = strip ws (drop n cs)"
      and ih: "\<exists>ps. set ps \<subseteq> set ws \<and> drop n cs = concat ps @ strip ws (drop n cs)" for n
  proof -
    from ih obtain ps where ps: "set ps \<subseteq> set ws"
      and d: "drop n cs = concat ps @ strip ws (drop n cs)" by blast
    have "c # cs = (c # take n cs) @ drop n cs" by simp
    also have "\<dots> = (c # take n cs) @ concat ps @ strip ws (drop n cs)"
      using d by simp
    finally have "c # cs = concat ((c # take n cs) # ps) @ strip ws (c # cs)"
      using s by simp
    moreover from w ps have "set ((c # take n cs) # ps) \<subseteq> set ws" by simp
    ultimately show ?thesis by blast
  qed
  consider (a) "[c] \<in> set ws"
    | (b) "[c] \<notin> set ws" "c # take 1 cs \<in> set ws"
    | (c) "[c] \<notin> set ws" "c # take 1 cs \<notin> set ws" "c # take 2 cs \<in> set ws"
    | (d) "[c] \<notin> set ws" "c # take 1 cs \<notin> set ws" "c # take 2 cs \<notin> set ws"
    by blast
  then show ?case
  proof cases
    case a
    with 2 step [of 0] show ?thesis by simp
  next
    case b
    with 2 step [of 1] show ?thesis by simp
  next
    case c
    with 2 step [of 2] show ?thesis by simp
  next
    case d
    then have "strip ws (c # cs) = c # cs" by simp
    then show ?thesis by (intro exI [of _ "[]"]) simp
  qed
qed

lemma strip_no_prefix:
  "w \<in> set ws \<Longrightarrow> length w \<in> {1, 2, 3} \<Longrightarrow>
   strip ws s = [] \<or> take (length w) (strip ws s) \<noteq> w"
proof (induction ws s rule: strip.induct)
  case (1 ws)
  show ?case by simp
next
  case (2 ws c cs)
  consider (a) "[c] \<in> set ws"
    | (b) "[c] \<notin> set ws" "c # take 1 cs \<in> set ws"
    | (c) "[c] \<notin> set ws" "c # take 1 cs \<notin> set ws" "c # take 2 cs \<in> set ws"
    | (d) "[c] \<notin> set ws" "c # take 1 cs \<notin> set ws" "c # take 2 cs \<notin> set ws"
    by blast
  then show ?case
  proof cases
    case a
    with 2 show ?thesis by simp
  next
    case b
    with 2 show ?thesis by simp
  next
    case c
    with 2 show ?thesis by simp
  next
    case d
    then have s: "strip ws (c # cs) = c # cs" by simp
    from "2.prems"(2) have "length w = 1 \<or> length w = 2 \<or> length w = 3" by simp
    then have "take (length w) (c # cs) \<noteq> w"
    proof (elim disjE)
      assume l: "length w = 1"
      have "take 1 (c # cs) = [c]" by simp
      with l d(1) "2.prems"(1) show ?thesis by metis
    next
      assume l: "length w = 2"
      have "take 2 (c # cs) = c # take 1 cs" by simp
      with l d(2) "2.prems"(1) show ?thesis by metis
    next
      assume l: "length w = 3"
      have "take 3 (c # cs) = c # take 2 cs" by simp
      with l d(3) "2.prems"(1) show ?thesis by metis
    qed
    with s show ?thesis by simp
  qed
qed

lemma white_space_lengths: "w \<in> set white_space \<Longrightarrow> length w \<in> {1, 2, 3}"
  unfolding white_space_def by (elim disjE | simp)+

lemma trim_decomp:
  "\<exists>ps qs. set ps \<subseteq> set white_space \<and> set qs \<subseteq> set white_space \<and>
           s = concat ps @ trim s @ concat qs"
proof -
  obtain ps where ps: "set ps \<subseteq> set white_space" and s: "s = concat ps @ strip white_space s"
    using strip_decomp by blast
  obtain rs where rs: "set rs \<subseteq> set (map rev white_space)"
    and r: "rev (strip white_space s) = concat rs @ rev (trim s)"
    using strip_decomp [of "map rev white_space" "rev (strip white_space s)"]
    by (auto simp: trim_def)
  from r have "strip white_space s = trim s @ rev (concat rs)"
    by (metis rev_append rev_rev_ident)
  also have "rev (concat rs) = concat (map rev (rev rs))"
    by (simp add: rev_concat)
  finally have "s = concat ps @ trim s @ concat (map rev (rev rs))"
    using s by simp
  moreover from rs have "set (map rev (rev rs)) \<subseteq> set white_space"
    by auto
  ultimately show ?thesis using ps by blast
qed

lemma trim_ends:
  assumes "w \<in> set white_space"
  shows "trim s = [] \<or> (take (length w) (trim s) \<noteq> w \<and> take (length w) (rev (trim s)) \<noteq> rev w)"
proof (cases "trim s = []")
  case True
  then show ?thesis by simp
next
  case False
  let ?r = "strip white_space s"
  let ?t = "strip (map rev white_space) (rev ?r)"
  have t: "trim s = rev ?t" by (simp add: trim_def)
  from assms have len: "length w \<in> {1, 2, 3}" by (rule white_space_lengths)
  from assms have "rev w \<in> set (map rev white_space)" by simp
  from strip_no_prefix [OF this, of "rev ?r"] len False t
  have e: "take (length w) (rev (trim s)) \<noteq> rev w" by simp
  obtain pre where pre: "rev ?r = pre @ ?t"
    using strip_decomp [of "map rev white_space" "rev ?r"] by blast
  then have r: "?r = trim s @ rev pre"
    by (metis rev_append rev_rev_ident t)
  from False r have "?r \<noteq> []" by simp
  with strip_no_prefix [OF assms len, of s] have n: "take (length w) ?r \<noteq> w" by simp
  have "take (length w) (trim s) \<noteq> w"
  proof
    assume a: "take (length w) (trim s) = w"
    then have "length w \<le> length (trim s)"
      by (metis nat_le_linear take_all)
    with a r have "take (length w) ?r = w" by simp
    with n show False ..
  qed
  with e show ?thesis by simp
qed

text \<open>
  C9, as stated, fails: with the option \<open>githubToken\<close> set to one space (a non-empty
  string) and a token in the environment, the credential is neither of them but the empty
  string, and the run takes the path without publishing.
\<close>

theorem token_resolution_counterexample:
  "resolve_token blank_token_world blank_token_opts = []
   \<and> snapshots blank_token_world [core_pkg] blank_token_opts Root [] =
       (Inr 0,
        [ExecSync git_status_cmd, Mkdtemp ''/tmp/angular-cli-publish-'', ExecSync git_log_cmd,
         CreateTemporaryProject, Log Root Info ''Building...'', Build, JsonHelp ''/tmp/project'',
         Log Root Info ''No token given, skipping actual publishing...''])"
  by (simp add: blank_token_world_def blank_token_opts_def run_defs io_defs calm_sel)

text \<open>
  C9, amended. The credential is the \<^emph>\<open>trimmed\<close> value of: the token option when it is
  non-empty, otherwise the token of the environment, otherwise the empty string. Trimmed
  means: that value is the credential between two runs of white space sequences, and the
  credential neither begins nor ends with a white space sequence. A command is only spawned
  when the credential is not empty, and every clone carries it in its URL.
\<close>

theorem token_resolution:
  "(let raw = (case opts_githubToken opts of
                 Some t \<Rightarrow> if t \<noteq> [] then t
                           else (case env_SNAPSHOT_BUILDS_GITHUB_TOKEN W of
                                   None \<Rightarrow> [] | Some t' \<Rightarrow> t')
               | None \<Rightarrow> (case env_SNAPSHOT_BUILDS_GITHUB_TOKEN W of
                            None \<Rightarrow> [] | Some t' \<Rightarrow> t'));
        tok = resolve_token W opts
    in tok = trim raw
       \<and> (\<exists>ps qs. set ps \<subseteq> set white_space \<and> set qs \<subseteq> set white_space \<and>
                   raw = concat ps @ tok @ concat qs)
       \<and> (\<forall>w\<in>set white_space.
             take (length w) tok \<noteq> w \<and> take (length w) (rev tok) \<noteq> rev w)
       \<and> emits (uses_token pkgs tok) (snapshots W pkgs opts lg))"
proof -
  define raw where "raw = (case opts_githubToken opts of
                 Some t \<Rightarrow> if t \<noteq> [] then t
                           else (case env_SNAPSHOT_BUILDS_GITHUB_TOKEN W of
                                   None \<Rightarrow> [] | Some t' \<Rightarrow> t')
               | None \<Rightarrow> (case env_SNAPSHOT_BUILDS_GITHUB_TOKEN W of
                            None \<Rightarrow> [] | Some t' \<Rightarrow> t'))"
  have t: "resolve_token W opts = trim raw"
    by (simp add: raw_def resolve_token_def or_default_def or_else_def truthy_def
        split: option.splits)
  have d: "\<exists>ps qs. set ps \<subseteq> set white_space \<and> set qs \<subseteq> set white_space \<and>
                   raw = concat ps @ resolve_token W opts @ concat qs"
    unfolding t by (rule trim_decomp)
  have e: "take (length w) (resolve_token W opts) \<noteq> w \<and>
           take (length w) (rev (resolve_token W opts)) \<noteq> rev w"
    if w: "w \<in> set white_space" for w
  proof (cases "trim raw = []")
    case True
    from white_space_lengths [OF w] have "w \<noteq> []" by auto
    with True t show ?thesis by simp
  next
    case False
    with trim_ends [OF w, of raw] t show ?thesis by simp
  qed
  have r: "emits (uses_token pkgs (resolve_token W opts)) (snapshots W pkgs opts lg)"
    by (rule emits_mono [OF emits_snapshots]) (blast intro: run_event_uses_token)
  from t d e r show ?thesis
    unfolding Let_def raw_def [symmetric] by blast
qed

theorem token_resolution_witness:
  "resolve_token calm padded_opts = ''tok''
   \<and> resolve_token blank_token_world nbsp_opts = []
   \<and> take 1 (resolve_token calm padded_opts) \<noteq> '' ''
   \<and> emits (uses_token [core_pkg] ''tok'') (snapshots calm [core_pkg] padded_opts Root)
   \<and> SpawnSync ''git'' [''clone'', ''https://tok@github.com/org/core-builds.git'']
        (Some ''/tmp/angular-cli-publish-a1b2c3'')
        \<in> set (snd (snapshots calm [core_pkg] padded_opts Root []))"
proof -
  note inst = token_resolution [where W = calm and opts = padded_opts and pkgs = "[core_pkg]"
      and lg = Root, unfolded Let_def]
  have raw: "(case opts_githubToken padded_opts of
                 Some t \<Rightarrow> if t \<noteq> [] then t
                           else (case env_SNAPSHOT_BUILDS_GITHUB_TOKEN calm of
                                   None \<Rightarrow> [] | Some t' \<Rightarrow> t')
               | None \<Rightarrow> (case env_SNAPSHOT_BUILDS_GITHUB_TOKEN calm of
                            None \<Rightarrow> [] | Some t' \<Rightarrow> t')) = '' tok'' @ nl"
    by (simp add: padded_opts_def)
  have "trim ('' tok'' @ nl) = ''tok''"
    by (simp add: trim_def white_space_def nl_def)
  with inst raw have t: "resolve_token calm padded_opts = ''tok''"
    by simp
  have "'' '' \<in> set white_space"
    by (simp add: white_space_def)
  with inst have s: "take 1 (resolve_token calm padded_opts) \<noteq> '' ''"
    by fastforce
  from inst have "emits (uses_token [core_pkg] (resolve_token calm padded_opts))
          (snapshots calm [core_pkg] padded_opts Root)"
    by blast
  with t have e: "emits (uses_token [core_pkg] ''tok'') (snapshots calm [core_pkg] padded_opts Root)"
    by simp
  have "trim [CHR 0xC2, CHR 0xA0] = []"
    by (simp add: trim_def white_space_def)
  with token_resolution [where W = blank_token_world and opts = nbsp_opts and pkgs = "[core_pkg]"
      and lg = Root, unfolded Let_def]
  have n: "resolve_token blank_token_world nbsp_opts = []"
    by (simp add: nbsp_opts_def)
  have run: "SpawnSync ''git'' [''clone'', ''https://tok@github.com/org/core-builds.git'']
        (Some ''/tmp/angular-cli-publish-a1b2c3'')
        \<in> set (snd (snapshots calm [core_pkg] padded_opts Root []))"
    by (simp add: padded_opts_def run_defs io_defs calm_sel)
  from t n s e run show ?thesis by blast
qed

subsection \<open>An empty branch\<close>

lemma publish_args_no_checkout:
  "publish_args tok [] msg pkg args \<Longrightarrow> no_checkout (SpawnSync c args cwd)"
  unfolding publish_args_def no_checkout_def
  by (elim disjE conjE) simp_all

lemma global_config_no_checkout:
  "args \<in> set global_config \<Longrightarrow> no_checkout (SpawnSync c args cwd)"
  unfolding global_config_def no_checkout_def
  by (elim disjE conjE | simp)+

lemma run_event_no_checkout: "run_event pkgs tok [] msg e \<Longrightarrow> no_checkout e"
proof (cases e)
  case (SpawnSync c args cwd)
  assume "run_event pkgs tok [] msg e"
  from run_event_spawn [OF this [unfolded SpawnSync]] show ?thesis
    unfolding SpawnSync
    by (cases "cwd = None") (auto intro: publish_args_no_checkout global_config_no_checkout)
qed (simp_all add: no_checkout_def)

text \<open>
  C10. When \<open>CIRCLE_BRANCH\<close> is set to the empty string, the branch is the empty string,
  whatever the \<open>branch\<close> option says. Then no package's sequence contains a checkout (neither
  of the branch nor with \<open>-b\<close>), and every push has the empty string as its branch argument.
\<close>

theorem empty_ci_branch:
  assumes "env_CIRCLE_BRANCH W = Some []"
  shows "resolve_branch W opts = [] \<and> emits no_checkout (snapshots W pkgs opts lg)"
proof
  show b: "resolve_branch W opts = []"
    using assms by (simp add: resolve_branch_def)
  show "emits no_checkout (snapshots W pkgs opts lg)"
    by (rule emits_mono [OF emits_snapshots]) (auto simp: b intro: run_event_no_checkout)
qed

theorem empty_ci_branch_witness:
  "resolve_branch empty_branch_world dev_opts = []
   \<and> emits no_checkout (snapshots empty_branch_world [core_pkg] dev_opts Root)
   \<and> spawned (snd (snapshots empty_branch_world [core_pkg] dev_opts Root [])) =
       [[''config'', ''--global'', ''user.email'', ''circleci@angular.io''],
        [''config'', ''--global'', ''user.name'', ''Angular Builds''],
        [''config'', ''--global'', ''push.default'', ''simple''],
        [''clone'', ''https://tok@github.com/org/core-builds.git''],
        [''rm'', ''-rf'', ''./''],
        [''config'', ''commit.gpgSign'', ''false''],
        [''add'', ''.''],
        [''commit'', ''-a'', ''-m'', ''abc1234 fix build''],
        [''tag'', ''abc123''],
        [''push'', ''origin'', []],
        [''push'', ''--tags'', ''origin'', []]]"
proof -
  have e: "env_CIRCLE_BRANCH empty_branch_world = Some []"
    by (simp add: empty_branch_world_def)
  have run: "spawned (snd (snapshots empty_branch_world [core_pkg] dev_opts Root [])) =
       [[''config'', ''--global'', ''user.email'', ''circleci@angular.io''],
        [''config'', ''--global'', ''user.name'', ''Angular Builds''],
        [''config'', ''--global'', ''push.default'', ''simple''],
        [''clone'', ''https://tok@github.com/org/core-builds.git''],
        [''rm'', ''-rf'', ''./''],
        [''config'', ''commit.gpgSign'', ''false''],
        [''add'', ''.''],
        [''commit'', ''-a'', ''-m'', ''abc1234 fix build''],
        [''tag'', ''abc123''],
        [''push'', ''origin'', []],
        [''push'', ''--tags'', ''origin'', []]]"
    by (simp add: empty_branch_world_def dev_opts_def run_defs io_defs calm_sel)
  from empty_ci_branch [OF e, of dev_opts "[core_pkg]" Root] run show ?thesis by blast
qed


subsection \<open>A run without a credential\<close>

lemma run_event_dry: "run_event pkgs [] b msg e \<Longrightarrow> dry_event e"
  by (cases e) (simp_all add: run_event_def dry_event_def)

text \<open>
  C3. When the resolved credential is empty, the run spawns no command at all (no clone, no
  push, no \<open>git config\<close>), does not change directory and does not touch the file system,
  whatever happens. When moreover the precondition check passes and the temporary directory,
  \<open>git log\<close>, the staging project, the build and the help generation succeed, the run is
  exactly these steps followed by the log of the skip, and it returns 0.
\<close>

theorem no_credential_dry_run:
  assumes "resolve_token W opts = []"
  shows "emits dry_event (snapshots W pkgs opts lg)
       \<and> (let h1 = h @ [ExecSync git_status_cmd];
              h2 = h1 @ [Mkdtemp (tmp_prefix W h1)];
              h3 = h2 @ [ExecSync git_log_cmd];
              h4 = h3 @ [CreateTemporaryProject, Log lg Info ''Building...''];
              h5 = h4 @ [Build]
          in
            execSync W h git_status_cmd = Some status \<and>
            (status = [] \<or> opts_force opts = Some True) \<and>
            mkdtempSync W h1 (tmp_prefix W h1) = Some root \<and>
            execSync W h2 git_log_cmd = Some out \<and>
            createTemporaryProject W h3 = Inr project \<and>
            build W h4 = Inr () \<and>
            jsonHelp W h5 project = Inr ()
            \<longrightarrow>
            snapshots W pkgs opts lg h =
              (Inr 0,
               h5 @ [JsonHelp project,
                     Log lg Info ''No token given, skipping actual publishing...'']))"
proof
  show "emits dry_event (snapshots W pkgs opts lg)"
    by (rule emits_mono [OF emits_snapshots]) (auto simp: assms intro: run_event_dry)
  show "(let h1 = h @ [ExecSync git_status_cmd];
                h2 = h1 @ [Mkdtemp (tmp_prefix W h1)];
                h3 = h2 @ [ExecSync git_log_cmd];
                h4 = h3 @ [CreateTemporaryProject, Log lg Info ''Building...''];
                h5 = h4 @ [Build]
            in
              execSync W h git_status_cmd = Some status \<and>
              (status = [] \<or> opts_force opts = Some True) \<and>
              mkdtempSync W h1 (tmp_prefix W h1) = Some root \<and>
              execSync W h2 git_log_cmd = Some out \<and>
              createTemporaryProject W h3 = Inr project \<and>
              build W h4 = Inr () \<and>
              jsonHelp W h5 project = Inr ()
              \<longrightarrow>
              snapshots W pkgs opts lg h =
                (Inr 0,
                 h5 @ [JsonHelp project,
                       Log lg Info ''No token given, skipping actual publishing...'']))"
    using assms
    by (auto simp: snapshots_def precondition_check_def snapshots_run_def io_defs Let_def
        tmp_prefix_def)
qed

theorem no_credential_dry_run_witness:
  "emits dry_event (snapshots calm [core_pkg] no_opts Root)
   \<and> snapshots calm [core_pkg] no_opts Root [] =
       (Inr 0,
        [ExecSync git_status_cmd, Mkdtemp ''/tmp/angular-cli-publish-'', ExecSync git_log_cmd,
         CreateTemporaryProject, Log Root Info ''Building...'', Build, JsonHelp ''/tmp/project'',
         Log Root Info ''No token given, skipping actual publishing...''])"
proof -
  have t: "resolve_token calm no_opts = []"
    by (simp add: run_defs calm_sel)
  from no_credential_dry_run [OF t, where pkgs = "[core_pkg]" and lg = Root and h = "[]"
      and status = "[]" and root = "''/tmp/angular-cli-publish-a1b2c3''"
      and out = "''abc1234 fix build'' @ nl" and project = "''/tmp/project''"]
  show ?thesis
    by (simp add: calm_sel tmp_prefix_def git_log_cmd_def git_status_cmd_def Let_def)
qed

subsection \<open>Checking out the branch\<close>

lemma publishSnapshot_eq:
  assumes "snapshot pkg"
  shows "publishSnapshot W pkg b m lg tok h =
     (let root = process_cwd W (h @ [Log lg Info (publishing W pkg)]);
          d = dest_path W pkg root;
          plg = Child lg ''publish'';
          h2 = h @ [Log lg Info (publishing W pkg),
                    Log plg Debug (''Temporary directory: '' @ root)]
      in if succeeded W h2 ''git'' [''clone'', clone_url tok pkg] (Some root)
         then (case checkout_branch W b d plg (h @ clone_steps W pkg lg tok root) of
                 (Inl e, t) \<Rightarrow> (Inl e, t)
               | (Inr u, t) \<Rightarrow> after_checkout W pkg b m tok d plg t)
         else (Inl Threw,
               h @ clone_steps W pkg lg tok root @
                 failure_log W plg h2 ''git'' [''clone'', clone_url tok pkg] (Some root)))"
proof -
  have "publishSnapshot W pkg b m lg tok =
      thenM (log lg Info (publishing W pkg))
     (bindM (reading (process_cwd W))
        (\<lambda>root.
          thenM (log (Child lg ''publish'') Debug (''Temporary directory: '' @ root))
         (thenM (exec W ''git'' [''clone'', clone_url tok pkg] (Some root) (Child lg ''publish''))
         (thenM (checkout_branch W b (dest_path W pkg root) (Child lg ''publish''))
                (after_checkout W pkg b m tok (dest_path W pkg root) (Child lg ''publish''))))))"
    using assms
    by (simp add: publishSnapshot_def after_checkout_def publishing_def dest_path_def Let_def)
  then show ?thesis
    by (simp add: thenM_def bindM_def log_def call_def reading_def exec_eq clone_steps_def Let_def)
qed

lemma extends_thenM:
  assumes "\<exists>es. snd (m h) = h @ es1 @ es" and "\<And>h. \<exists>es. snd (k h) = h @ es"
  shows "\<exists>es. snd (thenM m k h) = h @ es1 @ es"
proof -
  obtain r h1 where mh: "m h = (r, h1)" by (cases "m h")
  with assms(1) obtain es where h1: "h1 = h @ es1 @ es" by auto
  show ?thesis
  proof (cases r)
    case (Inl x)
    with mh h1 show ?thesis by (simp add: thenM_def bindM_def)
  next
    case (Inr x)
    from assms(2) [of h1] obtain es2 where "snd (k h1) = h1 @ es2" by auto
    with Inr mh h1 show ?thesis by (simp add: thenM_def bindM_def)
  qed
qed

lemma ff_extends: "fails_fast W b m \<Longrightarrow> \<exists>es. snd (m h) = h @ es"
  using ffD [of W b m h] by blast

lemma copy_first: "\<exists>es. snd (copy (Suc n) W src dst h) = h @ [Readdir src] @ es"
proof -
  have "\<exists>es. snd (bindM (call (Readdir src) (\<lambda>h. orThrow (readdirSync W h src)))
                    (\<lambda>names. copy_each n W src dst names) h) = h @ Readdir src # es"
  proof (rule extends_bindM)
    show "\<exists>es. snd (call (Readdir src) (\<lambda>h. orThrow (readdirSync W h src)) h) = h @ Readdir src # es"
      by (simp add: call_def)
    show "emits (\<lambda>_. True) (copy_each n W src dst x)" for x
      by (rule emits_mono [of copy_event]) (simp_all add: emits_def emits_copy_at)
  qed
  then show ?thesis
    by (simp only: copy_eqs append_Cons append_Nil)
qed

lemma after_checkout_starts:
  "\<exists>es. snd (after_checkout W pkg b m tok d lg h) =
     h @ (SpawnSync ''git'' [''rm'', ''-rf'', ''./''] (Some d) #
          (if succeeded W h ''git'' [''rm'', ''-rf'', ''./''] (Some d) then []
           else failure_log W lg h ''git'' [''rm'', ''-rf'', ''./''] (Some d)) @
          [Readdir (dist pkg)]) @ es"
proof -
  let ?h1 = "h @ SpawnSync ''git'' [''rm'', ''-rf'', ''./''] (Some d) #
          (if succeeded W h ''git'' [''rm'', ''-rf'', ''./''] (Some d) then []
           else failure_log W lg h ''git'' [''rm'', ''-rf'', ''./''] (Some d))"
  let ?rest = "thenM (if tok \<noteq> [] then
              thenM (exec W ''git'' [''config'', ''commit.gpgSign'', ''false''] (Some d) lg)
                (ret ())
            else ret ())
    (thenM (write_readme W pkg d)
    (thenM (write_uniqueId W d)
           (commit_and_push W pkg b m d lg)))"
  have rest: "fails_fast W b ?rest"
    by (intro ff_if ff_thenM ff_exec ff_ret ff_commit_and_push ff_write_readme ff_write_uniqueId)
       (simp add: tolerated_def)
  have "\<exists>es. snd (thenM (copy (Suc (call_stack W)) W (dist pkg) d) ?rest ?h1) =
          ?h1 @ [Readdir (dist pkg)] @ es"
    by (rule extends_thenM [OF copy_first ff_extends [OF rest]])
  then show ?thesis
    by (simp add: after_checkout_def thenM_def [of "clear_snapshot W d lg"] bindM_def
        clear_snapshot_eq)
qed

lemma run_stops_at_failed_command:
  assumes "snapshots W pkgs opts lg h = (r, h @ pre @ SpawnSync c args cwd # post)"
    and "\<not> succeeded W (h @ pre) c args cwd"
    and "\<not> tolerated (resolve_branch W opts) args"
  shows "r = Inl Threw \<and> (\<exists>lg'. post = failure_log W lg' (h @ pre) c args cwd)"
proof -
  from ffD [OF ff_snapshots [of W opts pkgs lg], of h] assms(1)
  have "fail_fast W (resolve_branch W opts) h (pre @ SpawnSync c args cwd # post) (failure_of r)"
    by simp
  from fail_fast_spawn [OF this assms(2,3)]
  show ?thesis
    by (cases r) (simp_all add: failure_of_def)
qed

lemma run_stops_at_failed_call:
  assumes "snapshots W pkgs opts lg h = (r, h @ pre @ e # post)"
    and "fs_failed W (h @ pre) e"
  shows "r = Inl Threw \<and> post = []"
proof -
  from ffD [OF ff_snapshots [of W opts pkgs lg], of h] assms(1)
  have "fail_fast W (resolve_branch W opts) h (pre @ e # post) (failure_of r)"
    by simp
  from fail_fast_fs [OF this assms(2)]
  show ?thesis
    by (cases r) (simp_all add: failure_of_def)
qed

text \<open>
  C6, as stated, fails: when the checkout fails and creating the branch fails as well, the
  sequence aborts; after the clone only the two checkouts are run.
\<close>

theorem checkout_or_create_counterexample:
  "fst (publishSnapshot checkout_fails core_pkg ''main'' ''abc1234 fix build'' Root ''tok'' []) =
     Inl Threw
   \<and> spawned (snd (publishSnapshot checkout_fails core_pkg ''main'' ''abc1234 fix build'' Root
                     ''tok'' [])) =
       [[''clone'', ''https://tok@github.com/org/core-builds.git''],
        [''checkout'', ''main''],
        [''checkout'', ''-b'', ''main'']]"
  by (simp add: checkout_fails_def run_defs io_defs calm_sel)

text \<open>
  C6, amended. With a non-empty branch name a checkout of that branch is attempted. If and
  only if it does not succeed, a \<open>checkout -b\<close> of the branch is attempted instead. When the
  checkout, or else the creation, succeeds, the block returns normally, and the sequence of
  the package goes on with the removal of the tracked files. When the creation does not
  succeed either, the block raises, and so does the sequence of the package, with the events
  of the block as its last ones; in a run, a \<open>checkout -b\<close> that does not succeed ends the
  run with the exception. A command that was run and did not exit with status 0 is followed
  by its error log; when \<open>spawnSync\<close> itself threw, nothing is logged. With an empty branch
  name the block does nothing.
\<close>

theorem checkout_or_create:
  "checkout_branch W branch d lg h =
     (let checkout = SpawnSync ''git'' [''checkout'', branch] (Some d);
          create = SpawnSync ''git'' [''checkout'', ''-b'', branch] (Some d);
          h1 = h @ checkout # failure_log W lg h ''git'' [''checkout'', branch] (Some d)
      in
        if branch = [] then (Inr (), h)
        else if succeeded W h ''git'' [''checkout'', branch] (Some d)
        then (Inr (), h @ [checkout])
        else if succeeded W h1 ''git'' [''checkout'', ''-b'', branch] (Some d)
        then (Inr (), h1 @ [create])
        else (Inl Threw,
              h1 @ create # failure_log W lg h1 ''git'' [''checkout'', ''-b'', branch] (Some d)))
   \<and> (let root = process_cwd W (h @ [Log lg Info (publishing W pkg)]);
           dest = dest_path W pkg root;
           plg = Child lg ''publish''
       in snapshot pkg \<and>
          succeeded W (h @ [Log lg Info (publishing W pkg),
                            Log plg Debug (''Temporary directory: '' @ root)])
            ''git'' [''clone'', clone_url githubToken pkg] (Some root)
          \<longrightarrow>
          publishSnapshot W pkg branch message lg githubToken h =
            (case checkout_branch W branch dest plg (h @ clone_steps W pkg lg githubToken root) of
               (Inl e, t) \<Rightarrow> (Inl e, t)
             | (Inr u, t) \<Rightarrow> after_checkout W pkg branch message githubToken dest plg t)
          \<and> (\<exists>es. snd (after_checkout W pkg branch message githubToken dest plg t) =
                    t @ SpawnSync ''git'' [''rm'', ''-rf'', ''./''] (Some dest) # es))
   \<and> (snapshots W pkgs opts lg h =
         (r, h @ pre @ SpawnSync ''git'' [''checkout'', ''-b'', b] cwd # post) \<and>
       \<not> succeeded W (h @ pre) ''git'' [''checkout'', ''-b'', b] cwd
       \<longrightarrow> r = Inl Threw \<and>
           (\<exists>lg'. post = failure_log W lg' (h @ pre) ''git'' [''checkout'', ''-b'', b] cwd))"
proof -
  have a: "checkout_branch W branch d lg h =
     (let checkout = SpawnSync ''git'' [''checkout'', branch] (Some d);
          create = SpawnSync ''git'' [''checkout'', ''-b'', branch] (Some d);
          h1 = h @ checkout # failure_log W lg h ''git'' [''checkout'', branch] (Some d)
      in
        if branch = [] then (Inr (), h)
        else if succeeded W h ''git'' [''checkout'', branch] (Some d)
        then (Inr (), h @ [checkout])
        else if succeeded W h1 ''git'' [''checkout'', ''-b'', branch] (Some d)
        then (Inr (), h1 @ [create])
        else (Inl Threw,
              h1 @ create # failure_log W lg h1 ''git'' [''checkout'', ''-b'', branch] (Some d)))"
    by (simp add: checkout_branch_eq Let_def)
  have b: "publishSnapshot W pkg branch message lg githubToken h =
            (case checkout_branch W branch
                    (dest_path W pkg (process_cwd W (h @ [Log lg Info (publishing W pkg)])))
                    (Child lg ''publish'')
                    (h @ clone_steps W pkg lg githubToken
                           (process_cwd W (h @ [Log lg Info (publishing W pkg)]))) of
               (Inl e, t) \<Rightarrow> (Inl e, t)
             | (Inr u, t) \<Rightarrow>
                 after_checkout W pkg branch message githubToken
                   (dest_path W pkg (process_cwd W (h @ [Log lg Info (publishing W pkg)])))
                   (Child lg ''publish'') t)"
    if "snapshot pkg"
      and "succeeded W (h @ [Log lg Info (publishing W pkg),
                            Log (Child lg ''publish'') Debug
                              (''Temporary directory: '' @
                               process_cwd W (h @ [Log lg Info (publishing W pkg)]))])
            ''git'' [''clone'', clone_url githubToken pkg]
            (Some (process_cwd W (h @ [Log lg Info (publishing W pkg)])))"
    using that publishSnapshot_eq [of pkg W branch message lg githubToken h]
    by (simp add: Let_def)
  have c: "\<exists>es. snd (after_checkout W pkg branch message githubToken dest plg t) =
                    t @ SpawnSync ''git'' [''rm'', ''-rf'', ''./''] (Some dest) # es" for dest plg
    using after_checkout_starts [of W pkg branch message githubToken dest plg t] by auto
  have e: "r = Inl Threw \<and>
           (\<exists>lg'. post = failure_log W lg' (h @ pre) ''git'' [''checkout'', ''-b'', b] cwd)"
    if "snapshots W pkgs opts lg h =
         (r, h @ pre @ SpawnSync ''git'' [''checkout'', ''-b'', b] cwd # post) \<and>
       \<not> succeeded W (h @ pre) ''git'' [''checkout'', ''-b'', b] cwd"
    using that run_stops_at_failed_command [of W pkgs opts lg h r pre "''git''"
        "[''checkout'', ''-b'', b]" cwd post]
    by (simp add: tolerated_def)
  from a b c e show ?thesis
    unfolding Let_def by blast
qed

theorem checkout_or_create_witness:
  "checkout_branch calm ''main'' ''/tmp/x'' Root [] =
     (Inr (), [SpawnSync ''git'' [''checkout'', ''main''] (Some ''/tmp/x'')])
   \<and> checkout_branch branch_missing ''main'' ''/tmp/x'' Root [] =
     (Inr (),
      [SpawnSync ''git'' [''checkout'', ''main''] (Some ''/tmp/x''),
       Log Root Error (''Command failed: git '' @ dq @ ''checkout'' @ dq @ '', '' @ dq @ ''main'' @ dq),
       SpawnSync ''git'' [''checkout'', ''-b'', ''main''] (Some ''/tmp/x'')])
   \<and> checkout_branch checkout_fails ''main'' ''/tmp/x'' Root [] =
     (Inl Threw,
      [SpawnSync ''git'' [''checkout'', ''main''] (Some ''/tmp/x''),
       Log Root Error (''Command failed: git '' @ dq @ ''checkout'' @ dq @ '', '' @ dq @ ''main'' @ dq),
       SpawnSync ''git'' [''checkout'', ''-b'', ''main''] (Some ''/tmp/x''),
       Log Root Error (''Command failed: git '' @ dq @ ''checkout'' @ dq @ '', '' @ dq @ ''-b'' @ dq
                         @ '', '' @ dq @ ''main'' @ dq)])
   \<and> checkout_branch nul_world nul_branch ''/tmp/x'' Root [] =
     (Inl Threw,
      [SpawnSync ''git'' [''checkout'', nul_branch] (Some ''/tmp/x''),
       SpawnSync ''git'' [''checkout'', ''-b'', nul_branch] (Some ''/tmp/x'')])
   \<and> publishSnapshot checkout_fails core_pkg ''main'' ''abc1234 fix build'' Root ''tok'' [] =
     (Inl Threw,
      [Log Root Info (''Publishing core to repo '' @ dq @ ''org/core-builds'' @ dq @ ''.''),
       Log (Child Root ''publish'') Debug ''Temporary directory: /tmp/angular-cli-publish-a1b2c3'',
       core_clone,
       in_core [''checkout'', ''main''],
       Log (Child Root ''publish'') Error
         (''Command failed: git '' @ dq @ ''checkout'' @ dq @ '', '' @ dq @ ''main'' @ dq),
       in_core [''checkout'', ''-b'', ''main''],
       Log (Child Root ''publish'') Error
         (''Command failed: git '' @ dq @ ''checkout'' @ dq @ '', '' @ dq @ ''-b'' @ dq
            @ '', '' @ dq @ ''main'' @ dq)])
   \<and> snapshots nul_world [core_pkg, docs_pkg] nul_opts Root [] =
     (Inl Threw,
      run_start @
      [core_clone, in_core [''checkout'', nul_branch], in_core [''checkout'', ''-b'', nul_branch]])"
proof -
  have 1: "checkout_branch calm ''main'' ''/tmp/x'' Root [] =
     (Inr (), [SpawnSync ''git'' [''checkout'', ''main''] (Some ''/tmp/x'')])"
    using checkout_or_create [where W = calm and branch = "''main''" and d = "''/tmp/x''"
        and lg = Root and h = "[]", THEN conjunct1]
    by (simp add: calm_sel Let_def succeeded_def)
  have 2: "checkout_branch branch_missing ''main'' ''/tmp/x'' Root [] =
     (Inr (),
      [SpawnSync ''git'' [''checkout'', ''main''] (Some ''/tmp/x''),
       Log Root Error (''Command failed: git '' @ dq @ ''checkout'' @ dq @ '', '' @ dq @ ''main'' @ dq),
       SpawnSync ''git'' [''checkout'', ''-b'', ''main''] (Some ''/tmp/x'')])"
    using checkout_or_create [where W = branch_missing and branch = "''main''" and d = "''/tmp/x''"
        and lg = Root and h = "[]", THEN conjunct1]
    by (simp add: branch_missing_def calm_sel Let_def succeeded_def failure_log_def
        command_failed_def dq_def)
  have 3: "checkout_branch checkout_fails ''main'' ''/tmp/x'' Root [] =
     (Inl Threw,
      [SpawnSync ''git'' [''checkout'', ''main''] (Some ''/tmp/x''),
       Log Root Error (''Command failed: git '' @ dq @ ''checkout'' @ dq @ '', '' @ dq @ ''main'' @ dq),
       SpawnSync ''git'' [''checkout'', ''-b'', ''main''] (Some ''/tmp/x''),
       Log Root Error (''Command failed: git '' @ dq @ ''checkout'' @ dq @ '', '' @ dq @ ''-b'' @ dq
                         @ '', '' @ dq @ ''main'' @ dq)])"
    using checkout_or_create [where W = checkout_fails and branch = "''main''" and d = "''/tmp/x''"
        and lg = Root and h = "[]", THEN conjunct1]
    by (simp add: checkout_fails_def calm_sel Let_def succeeded_def failure_log_def
        command_failed_def dq_def)
  have 4: "checkout_branch nul_world nul_branch ''/tmp/x'' Root [] =
     (Inl Threw,
      [SpawnSync ''git'' [''checkout'', nul_branch] (Some ''/tmp/x''),
       SpawnSync ''git'' [''checkout'', ''-b'', nul_branch] (Some ''/tmp/x'')])"
    using checkout_or_create [where W = nul_world and branch = nul_branch and d = "''/tmp/x''"
        and lg = Root and h = "[]", THEN conjunct1]
    by (simp add: nul_world_def nul_branch_def calm_sel Let_def succeeded_def failure_log_def)
  have 5: "publishSnapshot checkout_fails core_pkg ''main'' ''abc1234 fix build'' Root ''tok'' [] =
     (Inl Threw,
      [Log Root Info (''Publishing core to repo '' @ dq @ ''org/core-builds'' @ dq @ ''.''),
       Log (Child Root ''publish'') Debug ''Temporary directory: /tmp/angular-cli-publish-a1b2c3'',
       core_clone,
       in_core [''checkout'', ''main''],
       Log (Child Root ''publish'') Error
         (''Command failed: git '' @ dq @ ''checkout'' @ dq @ '', '' @ dq @ ''main'' @ dq),
       in_core [''checkout'', ''-b'', ''main''],
       Log (Child Root ''publish'') Error
         (''Command failed: git '' @ dq @ ''checkout'' @ dq @ '', '' @ dq @ ''-b'' @ dq
            @ '', '' @ dq @ ''main'' @ dq)])"
    using checkout_or_create [where W = checkout_fails and branch = "''main''" and pkg = core_pkg
        and lg = Root and h = "[]" and githubToken = "''tok''"
        and message = "''abc1234 fix build''", THEN conjunct2, THEN conjunct1]
    by (simp add: checkout_fails_def calm_sel Let_def succeeded_def
        command_failed_def dq_def core_pkg_def clone_steps_def publishing_def dest_path_def
        clone_url_def core_clone_def in_core_def core_dest_def checkout_branch_def exec_def io_defs)
  obtain r t where run: "snapshots nul_world [core_pkg, docs_pkg] nul_opts Root [] = (r, t)"
    by (cases "snapshots nul_world [core_pkg, docs_pkg] nul_opts Root []")
  have "snd (snapshots nul_world [core_pkg, docs_pkg] nul_opts Root []) =
      run_start @
      [core_clone, in_core [''checkout'', nul_branch], in_core [''checkout'', ''-b'', nul_branch]]"
    by (simp add: nul_world_def nul_opts_def nul_branch_def run_start_def core_clone_def
        in_core_def core_dest_def run_defs io_defs calm_sel)
  with run have t: "t = [] @ (run_start @ [core_clone, in_core [''checkout'', nul_branch]]) @
      SpawnSync ''git'' [''checkout'', ''-b'', nul_branch] core_dest # []"
    by (simp add: in_core_def)
  have f: "\<not> succeeded nul_world ([] @ (run_start @ [core_clone, in_core [''checkout'', nul_branch]]))
            ''git'' [''checkout'', ''-b'', nul_branch] core_dest"
    by (simp add: succeeded_def nul_world_def nul_branch_def)
  from checkout_or_create [where W = nul_world and pkgs = "[core_pkg, docs_pkg]"
      and opts = nul_opts and lg = Root and h = "[]" and r = r
      and pre = "run_start @ [core_clone, in_core [''checkout'', nul_branch]]"
      and b = nul_branch and cwd = core_dest and post = "[]", THEN conjunct2, THEN conjunct2]
    run [unfolded t] f
  have "r = Inl Threw"
    by blast
  with run t have 6: "snapshots nul_world [core_pkg, docs_pkg] nul_opts Root [] =
     (Inl Threw,
      run_start @
      [core_clone, in_core [''checkout'', nul_branch], in_core [''checkout'', ''-b'', nul_branch]])"
    by (simp add: in_core_def)
  from 1 2 3 4 5 6 show ?thesis by blast
qed

subsection \<open>The sequence of a package that returns normally\<close>

lemma bindM_Inr:
  "bindM m k h = (Inr y, h') \<longleftrightarrow> (\<exists>x h1. m h = (Inr x, h1) \<and> k x h1 = (Inr y, h'))"
  by (auto simp: bindM_def split: prod.splits sum.splits)

lemma thenM_Inr:
  "thenM m k h = (Inr y, h') \<longleftrightarrow> (\<exists>x h1. m h = (Inr x, h1) \<and> k h1 = (Inr y, h'))"
  by (simp add: thenM_def bindM_Inr)

lemma commit_and_push_Inr:
  "commit_and_push W pkg branch message d lg h = (Inr y, h') \<Longrightarrow>
   h' = h @ final_steps pkg branch message d"
  by (simp add: commit_and_push_def thenM_def bindM_def exec_eq ret_def final_steps_def
      split: if_splits)

lemma copy_preparing: "copy_event e \<Longrightarrow> preparing e"
  by (cases e) (simp_all add: preparing_def copy_event_def)

lemma preparing_checkout_branch: "emits preparing (checkout_branch W b d lg)"
  unfolding checkout_branch_def
  by (intro emits_if emits_tryM emits_thenM emits_exec emits_ret) (simp_all add: preparing_def)

lemma preparing_config:
  "emits preparing
     (if tok \<noteq> [] then
        thenM (exec W ''git'' [''config'', ''commit.gpgSign'', ''false''] (Some d) lg) (ret ())
      else ret ())"
  by (intro emits_if emits_thenM emits_exec emits_ret) (simp_all add: preparing_def)

lemma copy_first_events:
  "\<exists>es. snd (copy (Suc n) W src dst h) = h @ Readdir src # es \<and> list_all copy_event es"
proof -
  from emits_copy_at(1) [of "Suc n" W src dst h] obtain es where
    es: "snd (copy (Suc n) W src dst h) = h @ es" and fs: "list_all copy_event es" by blast
  from copy_first [of n W src dst h] obtain es' where
    "snd (copy (Suc n) W src dst h) = h @ [Readdir src] @ es'" by blast
  with es have "es = Readdir src # es'" by simp
  with es fs show ?thesis by simp
qed

lemma after_checkout_Inr:
  assumes "after_checkout W pkg b m tok d lg t = (Inr y, h')"
  shows "\<exists>es2 es3.
           (let hr = t @ SpawnSync ''git'' [''rm'', ''-rf'', ''./''] (Some d) # es2 @
                       Readdir (dist pkg) # es3
            in h' = hr @ readme_step W pkg d hr @ marker_step W d (hr @ readme_step W pkg d hr) @
                      final_steps pkg b m d
               \<and> list_all preparing (es2 @ es3))"
proof -
  from assms obtain t1 t2 t3 t4 t5 u1 u2 u3 u4 u5 where
    rm: "clear_snapshot W d lg t = (Inr u1, t1)"
    and cp: "copy (Suc (call_stack W)) W (dist pkg) d t1 = (Inr u2, t2)"
    and cf: "(if tok \<noteq> [] then
                thenM (exec W ''git'' [''config'', ''commit.gpgSign'', ''false''] (Some d) lg) (ret ())
              else ret ()) t2 = (Inr u3, t3)"
    and rd: "write_readme W pkg d t3 = (Inr u4, t4)"
    and mk: "write_uniqueId W d t4 = (Inr u5, t5)"
    and fin: "commit_and_push W pkg b m d lg t5 = (Inr y, h')"
    unfolding after_checkout_def thenM_Inr by blast
  from rm failure_log_cases [of W lg t "''git''" "[''rm'', ''-rf'', ''./'']" "Some d"]
  obtain es2 where t1: "t1 = t @ SpawnSync ''git'' [''rm'', ''-rf'', ''./''] (Some d) # es2"
    and b2: "list_all preparing es2"
    by (auto simp: clear_snapshot_eq preparing_def split: if_splits)
  from copy_first_events [of "call_stack W" W "dist pkg" d t1] cp
  obtain es3 where t2: "t2 = t1 @ Readdir (dist pkg) # es3" and "list_all copy_event es3"
    by auto
  then have b3: "list_all preparing es3"
    by (simp add: list_all_iff copy_preparing)
  from emitsD [OF preparing_config, of tok W d lg t2] cf
  obtain es4 where t3: "t3 = t2 @ es4" and b4: "list_all preparing es4"
    by auto
  from rd have t4: "t4 = t3 @ readme_step W pkg d t3"
    by (simp add: write_readme_eq readme_step_def Let_def)
  from mk have t5: "t5 = t4 @ marker_step W d t4"
    by (simp add: write_uniqueId_eq marker_step_def Let_def)
  from commit_and_push_Inr [OF fin] have h': "h' = t5 @ final_steps pkg b m d" .
  let ?hr = "t @ SpawnSync ''git'' [''rm'', ''-rf'', ''./''] (Some d) # es2 @
               Readdir (dist pkg) # (es3 @ es4)"
  from t1 t2 t3 have hr: "t3 = ?hr" by simp
  from h' t5 t4 have "h' = t3 @ readme_step W pkg d t3 @
      marker_step W d (t3 @ readme_step W pkg d t3) @ final_steps pkg b m d"
    by simp
  then have "h' = ?hr @ readme_step W pkg d ?hr @
      marker_step W d (?hr @ readme_step W pkg d ?hr) @ final_steps pkg b m d"
    unfolding hr .
  moreover from b2 b3 b4 have "list_all preparing (es2 @ es3 @ es4)" by simp
  ultimately show ?thesis
    unfolding Let_def by blast
qed

lemma publishSnapshot_Inr:
  assumes "snapshot pkg" and "publishSnapshot W pkg b m lg tok h = (Inr y, h')"
  shows "\<exists>es1 es2 es3.
           (let root = process_cwd W (h @ [Log lg Info (publishing W pkg)]);
                d = dest_path W pkg root;
                hr = h @ clone_steps W pkg lg tok root @ es1 @
                       SpawnSync ''git'' [''rm'', ''-rf'', ''./''] (Some d) # es2 @
                       Readdir (dist pkg) # es3
            in h' = hr @ readme_step W pkg d hr @ marker_step W d (hr @ readme_step W pkg d hr) @
                      final_steps pkg b m d
               \<and> list_all preparing (es1 @ es2 @ es3))"
proof -
  let ?root = "process_cwd W (h @ [Log lg Info (publishing W pkg)])"
  let ?d = "dest_path W pkg ?root"
  let ?plg = "Child lg ''publish''"
  let ?h0 = "h @ clone_steps W pkg lg tok ?root"
  from assms(2) publishSnapshot_eq [OF assms(1), of W b m lg tok h]
  obtain u t where cb: "checkout_branch W b ?d ?plg ?h0 = (Inr u, t)"
    and ac: "after_checkout W pkg b m tok ?d ?plg t = (Inr y, h')"
    by (auto simp: Let_def split: if_splits prod.splits sum.splits)
  from emitsD [OF preparing_checkout_branch, of W b ?d ?plg ?h0] cb
  obtain es1 where t: "t = ?h0 @ es1" and b1: "list_all preparing es1"
    by auto
  from after_checkout_Inr [OF ac] obtain es2 es3 where
    h': "h' = (t @ SpawnSync ''git'' [''rm'', ''-rf'', ''./''] (Some ?d) # es2 @
                 Readdir (dist pkg) # es3) @
              readme_step W pkg ?d (t @ SpawnSync ''git'' [''rm'', ''-rf'', ''./''] (Some ?d) # es2 @
                 Readdir (dist pkg) # es3) @
              marker_step W ?d ((t @ SpawnSync ''git'' [''rm'', ''-rf'', ''./''] (Some ?d) # es2 @
                 Readdir (dist pkg) # es3) @
                 readme_step W pkg ?d (t @ SpawnSync ''git'' [''rm'', ''-rf'', ''./''] (Some ?d) # es2 @
                 Readdir (dist pkg) # es3)) @
              final_steps pkg b m ?d"
    and b23: "list_all preparing (es2 @ es3)"
    unfolding Let_def by blast
  have e: "t @ SpawnSync ''git'' [''rm'', ''-rf'', ''./''] (Some ?d) # es2 @ Readdir (dist pkg) # es3
      = h @ clone_steps W pkg lg tok ?root @ es1 @
          SpawnSync ''git'' [''rm'', ''-rf'', ''./''] (Some ?d) # es2 @ Readdir (dist pkg) # es3"
    using t by simp
  from h' [unfolded e] b1 b23 show ?thesis
    unfolding Let_def by (intro exI [of _ es1] exI [of _ es2] exI [of _ es3]) simp
qed

lemma preparing_before_commit: "list_all preparing es \<Longrightarrow> list_all before_commit es"
proof (induction es)
  case Nil
  show ?case by simp
next
  case (Cons e es)
  then show ?case
    by (cases e) (auto simp: preparing_def before_commit_def)
qed

subsection \<open>The last steps of a package\<close>

lemma publish_all_extends: "\<exists>es. snd (publish_all W root pkgs b m lg tok h) = h @ es"
  using ff_publish_all_at [of W root pkgs b m lg tok h] by blast

lemma publish_all_final_steps:
  "publish_all W root pkgs b m lg tok h = (Inr y, h') \<Longrightarrow> pkg \<in> set pkgs \<Longrightarrow> snapshot pkg \<Longrightarrow>
   \<exists>pre post r es.
     h' = h @ pre @ SpawnSync ''git'' [''clone'', clone_url tok pkg] (Some r) # es @
            final_steps pkg b m (dest_path W pkg r) @ post
     \<and> list_all before_commit es"
proof (induction pkgs arbitrary: h)
  case Nil
  then show ?case by simp
next
  case (Cons p pkgs)
  from Cons.prems(1) obtain h1 where
    one: "publishSnapshot W p b m lg tok (h @ [Chdir root]) = (Inr (), h1)"
    and rest: "publish_all W root pkgs b m lg tok h1 = (Inr y, h')"
    by (auto simp: thenM_Inr call_def)
  show ?case
  proof (cases "pkg = p")
    case True
    let ?h = "h @ [Chdir root]"
    let ?r = "process_cwd W (?h @ [Log lg Info (publishing W pkg)])"
    let ?d = "dest_path W pkg ?r"
    from publishSnapshot_Inr [OF Cons.prems(3) one [folded True]]
    obtain es1 es2 es3 where
      h1: "h1 = (?h @ clone_steps W pkg lg tok ?r @ es1 @
                SpawnSync ''git'' [''rm'', ''-rf'', ''./''] (Some ?d) # es2 @
                Readdir (dist pkg) # es3) @
              readme_step W pkg ?d (?h @ clone_steps W pkg lg tok ?r @ es1 @
                SpawnSync ''git'' [''rm'', ''-rf'', ''./''] (Some ?d) # es2 @
                Readdir (dist pkg) # es3) @
              marker_step W ?d ((?h @ clone_steps W pkg lg tok ?r @ es1 @
                SpawnSync ''git'' [''rm'', ''-rf'', ''./''] (Some ?d) # es2 @
                Readdir (dist pkg) # es3) @
                readme_step W pkg ?d (?h @ clone_steps W pkg lg tok ?r @ es1 @
                SpawnSync ''git'' [''rm'', ''-rf'', ''./''] (Some ?d) # es2 @
                Readdir (dist pkg) # es3)) @
              final_steps pkg b m ?d"
      and pr: "list_all preparing (es1 @ es2 @ es3)"
      unfolding Let_def by blast
    from preparing_before_commit [OF pr] have bc: "list_all before_commit (es1 @ es2 @ es3)" .
    let ?hr = "?h @ clone_steps W pkg lg tok ?r @ es1 @
                SpawnSync ''git'' [''rm'', ''-rf'', ''./''] (Some ?d) # es2 @
                Readdir (dist pkg) # es3"
    let ?es = "es1 @ SpawnSync ''git'' [''rm'', ''-rf'', ''./''] (Some ?d) # es2 @
                Readdir (dist pkg) # es3 @ readme_step W pkg ?d ?hr @
                marker_step W ?d (?hr @ readme_step W pkg ?d ?hr)"
    from publish_all_extends [of W root pkgs b m lg tok h1] rest
    obtain post where "h' = h1 @ post" by auto
    with h1 have "h' = h @ [Chdir root, Log lg Info (publishing W pkg),
                           Log (Child lg ''publish'') Debug (''Temporary directory: '' @ ?r)] @
        SpawnSync ''git'' [''clone'', clone_url tok pkg] (Some ?r) # ?es @
        final_steps pkg b m ?d @ post"
      by (simp add: clone_steps_def)
    moreover from bc have "list_all before_commit ?es"
      by (simp add: before_commit_def readme_step_def marker_step_def Let_def)
    ultimately show ?thesis by blast
  next
    case False
    with Cons.prems(2) have "pkg \<in> set pkgs" by simp
    from Cons.IH [OF rest this Cons.prems(3)] obtain pre post r es where
      h': "h' = h1 @ pre @ SpawnSync ''git'' [''clone'', clone_url tok pkg] (Some r) # es @
            final_steps pkg b m (dest_path W pkg r) @ post"
      and bc: "list_all before_commit es"
      by blast
    from emitsD [OF emits_publishSnapshot [of tok b m p W lg], of "h @ [Chdir root]"] one
    obtain es0 where "h1 = (h @ [Chdir root]) @ es0" by auto
    with h' have "h' = h @ (Chdir root # es0 @ pre) @
            SpawnSync ''git'' [''clone'', clone_url tok pkg] (Some r) # es @
            final_steps pkg b m (dest_path W pkg r) @ post"
      by simp
    with bc show ?thesis by blast
  qed
qed

lemma snapshots_Inr:
  assumes "snapshots W pkgs opts lg h = (Inr n, tr)" and "resolve_token W opts \<noteq> []"
  shows "\<exists>out root p y.
           execSync W (h @ [ExecSync git_status_cmd,
                            Mkdtemp (tmp_prefix W (h @ [ExecSync git_status_cmd]))])
             git_log_cmd = Some out \<and>
           publish_all W root pkgs (resolve_branch W opts) (trim out) lg (resolve_token W opts)
             (h @ [ExecSync git_status_cmd,
                   Mkdtemp (tmp_prefix W (h @ [ExecSync git_status_cmd])),
                   ExecSync git_log_cmd,
                   Log lg Info ''Setting up global git name.'',
                   SpawnSync ''git'' [''config'', ''--global'', ''user.email'', ''circleci@angular.io'']
                     None,
                   SpawnSync ''git'' [''config'', ''--global'', ''user.name'', ''Angular Builds''] None,
                   SpawnSync ''git'' [''config'', ''--global'', ''push.default'', ''simple''] None,
                   CreateTemporaryProject, Log lg Info ''Building...'', Build, JsonHelp p])
             = (Inr y, tr)"
  using assms
  by (auto simp: snapshots_def precondition_check_def snapshots_run_def Let_def tmp_prefix_def
      thenM_Inr bindM_Inr exec_Inr call_def reading_def ret_def throw_def orThrow_def log_def
      split: if_splits option.splits) blast+

text \<open>
  C7. When the sequence of a package with \<open>snapshot\<close> true returns normally, its trace
  begins with the two logs and the clone, run in the working directory \<open>root\<close>, and its last
  five events are, in this order: \<open>git add .\<close>, \<open>git commit -a -m message\<close>,
  \<open>git tag snapshotHash\<close>, \<open>git push origin branch\<close> and \<open>git push --tags origin branch\<close>,
  all run in the clone of the package under \<open>root\<close>; none of these commands is run in between.
  A run with a credential that returns normally begins with \<open>git status --porcelain\<close>, the
  creation of the temporary directory and \<open>git log --format="%h %s" -n1\<close>; for every such
  package of the table its trace holds the clone of that package, followed by those five
  commands in the clone, with the resolved branch and with the trimmed output of that
  \<open>git log\<close> as the message.
\<close>

theorem final_steps_in_order:
  "(snapshot pkg \<and> publishSnapshot W pkg branch message lg githubToken h = (Inr (), h')
      \<longrightarrow> (let root = process_cwd W (h @ [Log lg Info (publishing W pkg)]) in
           \<exists>es. h' = h @ clone_steps W pkg lg githubToken root @ es @
                        final_steps pkg branch message (dest_path W pkg root)
                \<and> list_all before_commit es))
   \<and> (resolve_token W opts \<noteq> [] \<and> snapshots W pkgs opts lg h = (Inr n, tr)
      \<longrightarrow> (let status_cmd = ''git status --porcelain'';
               log_cmd = ''git log --format='' @ [CHR 0x22] @ ''%h %s'' @ [CHR 0x22] @ '' -n1'';
               start = [ExecSync status_cmd,
                        Mkdtemp (path_join W (os_tmpdir W (h @ [ExecSync status_cmd]))
                                   ''angular-cli-publish-'')]
           in \<exists>out rest.
                tr = h @ start @ ExecSync log_cmd # rest
                \<and> execSync W (h @ start) log_cmd = Some out
                \<and> (\<forall>p\<in>set pkgs. snapshot p \<longrightarrow>
                     (\<exists>pre post root es.
                        rest = pre @
                          SpawnSync ''git'' [''clone'', clone_url (resolve_token W opts) p]
                            (Some root) #
                          es @
                          final_steps p (resolve_branch W opts) (trim out) (dest_path W p root) @
                          post
                        \<and> list_all before_commit es))))"
proof (intro conjI impI)
  assume a: "snapshot pkg \<and> publishSnapshot W pkg branch message lg githubToken h = (Inr (), h')"
  let ?root = "process_cwd W (h @ [Log lg Info (publishing W pkg)])"
  let ?d = "dest_path W pkg ?root"
  from a publishSnapshot_Inr [of pkg W branch message lg githubToken h "()" h']
  obtain es1 es2 es3 where
    h': "h' = (h @ clone_steps W pkg lg githubToken ?root @ es1 @
                SpawnSync ''git'' [''rm'', ''-rf'', ''./''] (Some ?d) # es2 @
                Readdir (dist pkg) # es3) @
              readme_step W pkg ?d (h @ clone_steps W pkg lg githubToken ?root @ es1 @
                SpawnSync ''git'' [''rm'', ''-rf'', ''./''] (Some ?d) # es2 @
                Readdir (dist pkg) # es3) @
              marker_step W ?d ((h @ clone_steps W pkg lg githubToken ?root @ es1 @
                SpawnSync ''git'' [''rm'', ''-rf'', ''./''] (Some ?d) # es2 @
                Readdir (dist pkg) # es3) @
                readme_step W pkg ?d (h @ clone_steps W pkg lg githubToken ?root @ es1 @
                SpawnSync ''git'' [''rm'', ''-rf'', ''./''] (Some ?d) # es2 @
                Readdir (dist pkg) # es3)) @
              final_steps pkg branch message ?d"
    and pr: "list_all preparing (es1 @ es2 @ es3)"
    unfolding Let_def by blast
  from preparing_before_commit [OF pr] have bc: "list_all before_commit (es1 @ es2 @ es3)" .
  let ?hr = "h @ clone_steps W pkg lg githubToken ?root @ es1 @
                SpawnSync ''git'' [''rm'', ''-rf'', ''./''] (Some ?d) # es2 @
                Readdir (dist pkg) # es3"
  let ?es = "es1 @ SpawnSync ''git'' [''rm'', ''-rf'', ''./''] (Some ?d) # es2 @
                Readdir (dist pkg) # es3 @ readme_step W pkg ?d ?hr @
                marker_step W ?d (?hr @ readme_step W pkg ?d ?hr)"
  from h' have "h' = h @ clone_steps W pkg lg githubToken ?root @ ?es @
      final_steps pkg branch message ?d"
    by simp
  moreover from bc have "list_all before_commit ?es"
    by (simp add: before_commit_def readme_step_def marker_step_def Let_def)
  ultimately show "let root = process_cwd W (h @ [Log lg Info (publishing W pkg)]) in
           \<exists>es. h' = h @ clone_steps W pkg lg githubToken root @ es @
                        final_steps pkg branch message (dest_path W pkg root)
                \<and> list_all before_commit es"
    unfolding Let_def by blast
next
  assume a: "resolve_token W opts \<noteq> [] \<and> snapshots W pkgs opts lg h = (Inr n, tr)"
  let ?start = "[ExecSync git_status_cmd, Mkdtemp (tmp_prefix W (h @ [ExecSync git_status_cmd]))]"
  from snapshots_Inr [of W pkgs opts lg h n tr] a obtain out root p y where
    out: "execSync W (h @ ?start) git_log_cmd = Some out"
    and pa: "publish_all W root pkgs (resolve_branch W opts) (trim out) lg (resolve_token W opts)
             (h @ [ExecSync git_status_cmd,
                   Mkdtemp (tmp_prefix W (h @ [ExecSync git_status_cmd])),
                   ExecSync git_log_cmd,
                   Log lg Info ''Setting up global git name.'',
                   SpawnSync ''git'' [''config'', ''--global'', ''user.email'', ''circleci@angular.io'']
                     None,
                   SpawnSync ''git'' [''config'', ''--global'', ''user.name'', ''Angular Builds''] None,
                   SpawnSync ''git'' [''config'', ''--global'', ''push.default'', ''simple''] None,
                   CreateTemporaryProject, Log lg Info ''Building...'', Build, JsonHelp p])
             = (Inr y, tr)"
    by blast
  let ?mid = "[Log lg Info ''Setting up global git name.'',
                   SpawnSync ''git'' [''config'', ''--global'', ''user.email'', ''circleci@angular.io'']
                     None,
                   SpawnSync ''git'' [''config'', ''--global'', ''user.name'', ''Angular Builds''] None,
                   SpawnSync ''git'' [''config'', ''--global'', ''push.default'', ''simple''] None,
                   CreateTemporaryProject, Log lg Info ''Building...'', Build, JsonHelp p]"
  from publish_all_extends [of W root pkgs "resolve_branch W opts" "trim out" lg
      "resolve_token W opts" "h @ ?start @ ExecSync git_log_cmd # ?mid"] pa
  obtain es0 where tr: "tr = h @ ?start @ ExecSync git_log_cmd # (?mid @ es0)"
    by auto
  have each: "\<exists>pre post root es.
        ?mid @ es0 = pre @
          SpawnSync ''git'' [''clone'', clone_url (resolve_token W opts) q] (Some root) # es @
          final_steps q (resolve_branch W opts) (trim out) (dest_path W q root) @ post
        \<and> list_all before_commit es"
    if q: "q \<in> set pkgs" "snapshot q" for q
  proof -
    from publish_all_final_steps [OF pa q] obtain pre post r es where
      e: "tr = (h @ [ExecSync git_status_cmd,
                   Mkdtemp (tmp_prefix W (h @ [ExecSync git_status_cmd])),
                   ExecSync git_log_cmd,
                   Log lg Info ''Setting up global git name.'',
                   SpawnSync ''git'' [''config'', ''--global'', ''user.email'', ''circleci@angular.io'']
                     None,
                   SpawnSync ''git'' [''config'', ''--global'', ''user.name'', ''Angular Builds''] None,
                   SpawnSync ''git'' [''config'', ''--global'', ''push.default'', ''simple''] None,
                   CreateTemporaryProject, Log lg Info ''Building...'', Build, JsonHelp p]) @ pre @
            SpawnSync ''git'' [''clone'', clone_url (resolve_token W opts) q] (Some r) # es @
            final_steps q (resolve_branch W opts) (trim out) (dest_path W q r) @ post"
      and bc: "list_all before_commit es"
      by blast
    from e tr have "?mid @ es0 = (?mid @ pre) @
          SpawnSync ''git'' [''clone'', clone_url (resolve_token W opts) q] (Some r) # es @
          final_steps q (resolve_branch W opts) (trim out) (dest_path W q r) @ post"
      by simp
    with bc show ?thesis by blast
  qed
  from tr out each
  show "let status_cmd = ''git status --porcelain'';
               log_cmd = ''git log --format='' @ [CHR 0x22] @ ''%h %s'' @ [CHR 0x22] @ '' -n1'';
               start = [ExecSync status_cmd,
                        Mkdtemp (path_join W (os_tmpdir W (h @ [ExecSync status_cmd]))
                                   ''angular-cli-publish-'')]
           in \<exists>out rest.
                tr = h @ start @ ExecSync log_cmd # rest
                \<and> execSync W (h @ start) log_cmd = Some out
                \<and> (\<forall>p\<in>set pkgs. snapshot p \<longrightarrow>
                     (\<exists>pre post root es.
                        rest = pre @
                          SpawnSync ''git'' [''clone'', clone_url (resolve_token W opts) p]
                            (Some root) #
                          es @
                          final_steps p (resolve_branch W opts) (trim out) (dest_path W p root) @
                          post
                        \<and> list_all before_commit es))"
    unfolding Let_def git_status_cmd_def [symmetric] git_log_cmd_def [symmetric]
      tmp_prefix_def [symmetric]
    by blast
qed

theorem final_steps_in_order_witness:
  "(\<exists>es. snd (publishSnapshot calm core_pkg ''main'' ''abc1234 fix build'' Root ''tok'' []) =
            clone_steps calm core_pkg Root ''tok'' ''/tmp/angular-cli-publish-a1b2c3'' @ es @
            final_steps core_pkg ''main'' ''abc1234 fix build''
              ''/tmp/angular-cli-publish-a1b2c3/core-builds''
          \<and> list_all before_commit es)
   \<and> (\<exists>pre post root es. snd (snapshots calm [core_pkg, docs_pkg] dev_opts Root []) =
            pre @ SpawnSync ''git'' [''clone'', ''https://tok@github.com/org/core-builds.git'']
                    (Some root) #
            es @ final_steps core_pkg ''dev'' ''abc1234 fix build'' (dest_path calm core_pkg root) @
            post
          \<and> list_all before_commit es)
   \<and> spawned (snd (publishSnapshot calm core_pkg ''main'' ''abc1234 fix build'' Root ''tok'' [])) =
       [[''clone'', ''https://tok@github.com/org/core-builds.git''],
        [''checkout'', ''main''],
        [''rm'', ''-rf'', ''./''],
        [''config'', ''commit.gpgSign'', ''false''],
        [''add'', ''.''],
        [''commit'', ''-a'', ''-m'', ''abc1234 fix build''],
        [''tag'', ''abc123''],
        [''push'', ''origin'', ''main''],
        [''push'', ''--tags'', ''origin'', ''main'']]"
proof -
  let ?one = "publishSnapshot calm core_pkg ''main'' ''abc1234 fix build'' Root ''tok'' []"
  let ?run = "snapshots calm [core_pkg, docs_pkg] dev_opts Root []"
  have "fst ?one = Inr ()"
    by (simp add: run_defs io_defs calm_sel)
  then have one: "?one = (Inr (), snd ?one)"
    by (simp add: prod_eq_iff)
  have "fst ?run = Inr 0"
    by (simp add: dev_opts_def run_defs io_defs calm_sel)
  then have run: "?run = (Inr 0, snd ?run)"
    by (simp add: prod_eq_iff)
  have tok: "resolve_token calm dev_opts \<noteq> []"
    by (simp add: dev_opts_def run_defs calm_sel)
  have tk: "resolve_token calm dev_opts = ''tok''"
    by (simp add: dev_opts_def run_defs calm_sel)
  have b: "resolve_branch calm dev_opts = ''dev''"
    by (simp add: dev_opts_def run_defs calm_sel)
  have s: "snapshot core_pkg"
    by (simp add: core_pkg_def)
  have url: "clone_url ''tok'' core_pkg = ''https://tok@github.com/org/core-builds.git''"
    by (simp add: clone_url_def core_pkg_def)
  have sp: "spawned (snd ?one) =
       [[''clone'', ''https://tok@github.com/org/core-builds.git''],
        [''checkout'', ''main''],
        [''rm'', ''-rf'', ''./''],
        [''config'', ''commit.gpgSign'', ''false''],
        [''add'', ''.''],
        [''commit'', ''-a'', ''-m'', ''abc1234 fix build''],
        [''tag'', ''abc123''],
        [''push'', ''origin'', ''main''],
        [''push'', ''--tags'', ''origin'', ''main'']]"
    by (simp add: run_defs io_defs calm_sel)
  note inst = final_steps_in_order [where W = calm and pkg = core_pkg and branch = "''main''"
      and message = "''abc1234 fix build''" and lg = Root and githubToken = "''tok''" and h = "[]"
      and h' = "snd ?one" and opts = dev_opts and pkgs = "[core_pkg, docs_pkg]" and n = 0
      and tr = "snd ?run", unfolded Let_def]
  have d: "dest_path calm core_pkg ''/tmp/angular-cli-publish-a1b2c3'' =
      ''/tmp/angular-cli-publish-a1b2c3/core-builds''"
    by (simp add: dest_path_def core_pkg_def calm_sel)
  from inst s one have "\<exists>es. snd ?one =
        [] @ clone_steps calm core_pkg Root ''tok''
               (process_cwd calm ([] @ [Log Root Info (publishing calm core_pkg)])) @ es @
        final_steps core_pkg ''main'' ''abc1234 fix build''
          (dest_path calm core_pkg
             (process_cwd calm ([] @ [Log Root Info (publishing calm core_pkg)])))
      \<and> list_all before_commit es"
    by blast
  then have 1: "\<exists>es. snd ?one =
        clone_steps calm core_pkg Root ''tok'' ''/tmp/angular-cli-publish-a1b2c3'' @ es @
        final_steps core_pkg ''main'' ''abc1234 fix build''
          ''/tmp/angular-cli-publish-a1b2c3/core-builds''
      \<and> list_all before_commit es"
    by (simp add: calm_sel d)
  from inst tok run obtain out rest where
    o: "execSync calm ([] @ [ExecSync ''git status --porcelain'',
          Mkdtemp (path_join calm (os_tmpdir calm ([] @ [ExecSync ''git status --porcelain'']))
                     ''angular-cli-publish-'')])
          (''git log --format='' @ [CHR 0x22] @ ''%h %s'' @ [CHR 0x22] @ '' -n1'') = Some out"
    and t: "snd ?run = [] @ [ExecSync ''git status --porcelain'',
          Mkdtemp (path_join calm (os_tmpdir calm ([] @ [ExecSync ''git status --porcelain'']))
                     ''angular-cli-publish-'')] @
          ExecSync (''git log --format='' @ [CHR 0x22] @ ''%h %s'' @ [CHR 0x22] @ '' -n1'') # rest"
    and f: "\<forall>p\<in>set [core_pkg, docs_pkg]. snapshot p \<longrightarrow>
       (\<exists>pre post root es.
          rest = pre @
            SpawnSync ''git'' [''clone'', clone_url (resolve_token calm dev_opts) p] (Some root) #
            es @
            final_steps p (resolve_branch calm dev_opts) (trim out) (dest_path calm p root) @ post
          \<and> list_all before_commit es)"
    by blast
  from o have "out = ''abc1234 fix build'' @ nl"
    by (simp add: calm_sel git_log_cmd_def)
  then have "trim out = ''abc1234 fix build''"
    by (simp add: trim_def white_space_def nl_def)
  with f s b tk url obtain pre post root es where
    r: "rest = pre @
            SpawnSync ''git'' [''clone'', ''https://tok@github.com/org/core-builds.git'']
              (Some root) #
            es @
            final_steps core_pkg ''dev'' ''abc1234 fix build'' (dest_path calm core_pkg root) @ post"
    and bc: "list_all before_commit es"
    by auto
  from t r have "snd ?run =
      ([ExecSync ''git status --porcelain'',
          Mkdtemp (path_join calm (os_tmpdir calm ([] @ [ExecSync ''git status --porcelain'']))
                     ''angular-cli-publish-''),
          ExecSync (''git log --format='' @ [CHR 0x22] @ ''%h %s'' @ [CHR 0x22] @ '' -n1'')] @ pre) @
      SpawnSync ''git'' [''clone'', ''https://tok@github.com/org/core-builds.git''] (Some root) #
      es @ final_steps core_pkg ''dev'' ''abc1234 fix build'' (dest_path calm core_pkg root) @ post"
    by simp
  with bc have 2: "\<exists>pre post root es. snd ?run =
            pre @ SpawnSync ''git'' [''clone'', ''https://tok@github.com/org/core-builds.git'']
                    (Some root) #
            es @ final_steps core_pkg ''dev'' ''abc1234 fix build'' (dest_path calm core_pkg root) @
            post
          \<and> list_all before_commit es"
    by blast
  from 1 2 sp show ?thesis by blast
qed

subsection \<open>Failures\<close>

text \<open>
  C4, as stated, fails. When the copy of the build output fails (here: the directory cannot
  be listed), the run aborts at once, but nothing is logged; the last event is the failed
  file system call. No ``Command failed'' message exists for the copy or for the two
  writes, which are calls of \<open>fs\<close> and not of \<open>_exec\<close>. And when \<open>spawnSync\<close> itself throws
  (here: the URL of the clone holds a NUL byte), \<open>_exec\<close> logs nothing either.
\<close>

theorem failures_abort_run_counterexample:
  "snapshots unreadable_dist [core_pkg, docs_pkg] dev_opts Root [] =
     (Inl Threw,
      run_start @
      [core_clone, in_core [''checkout'', ''dev''], in_core [''rm'', ''-rf'', ''./''],
       Readdir ''./dist/core''])
   \<and> snapshots nul_world [core_pkg, docs_pkg] nul_token_opts Root [] =
     (Inl Threw,
      run_start @
      [SpawnSync ''git''
         [''clone'', ''https://to'' @ [CHR 0x00] @ ''k@github.com/org/core-builds.git'']
         (Some ''/tmp/angular-cli-publish-a1b2c3'')])"
  by (simp add: unreadable_dist_def nul_world_def nul_token_opts_def dev_opts_def run_start_def
      core_clone_def in_core_def core_dest_def run_defs io_defs calm_sel)

text \<open>
  C4, amended. The removal of the tracked files never fails the sequence: the block returns
  normally whether \<open>git rm -rf ./\<close> succeeded or not, and the copy of the build output
  follows. In a run, a git command other than that removal and the first checkout of the
  branch (so: the global configuration, clone, \<open>checkout -b\<close>, \<open>config\<close>, \<open>add\<close>, \<open>commit\<close>,
  \<open>tag\<close>, \<open>push\<close>) that does not succeed ends the run with the exception: no later step and no
  later package is processed. When the command was run and did not exit with status 0, its
  event is followed by exactly one more, the error log of the command and its arguments;
  when \<open>spawnSync\<close> itself threw, the event of the command is the last one. A failing step of
  the copy (listing a directory, \<open>stat\<close>, \<open>mkdir\<close>, reading or writing a file) or a failing
  write of \<open>README.md\<close> or \<open>uniqueId\<close> is the last event of the run, which ends with the
  exception without any log.
\<close>

theorem failures_abort_run:
  "clear_snapshot W d lg h =
     (Inr (),
      h @ SpawnSync ''git'' [''rm'', ''-rf'', ''./''] (Some d) #
        (if succeeded W h ''git'' [''rm'', ''-rf'', ''./''] (Some d) then []
         else failure_log W lg h ''git'' [''rm'', ''-rf'', ''./''] (Some d)))
   \<and> (\<exists>es. snd (after_checkout W pkg branch message githubToken d lg h) =
         h @ SpawnSync ''git'' [''rm'', ''-rf'', ''./''] (Some d) #
           (if succeeded W h ''git'' [''rm'', ''-rf'', ''./''] (Some d) then []
            else failure_log W lg h ''git'' [''rm'', ''-rf'', ''./''] (Some d)) @
           Readdir (dist pkg) # es)
   \<and> (snapshots W pkgs opts lg h = (r, h @ pre @ SpawnSync c args cwd # post) \<and>
        \<not> succeeded W (h @ pre) c args cwd \<and>
        \<not> tolerated (resolve_branch W opts) args
        \<longrightarrow> r = Inl Threw \<and>
            (case spawnSync W (h @ pre) c args cwd of
               None \<Rightarrow> post = []
             | Some st \<Rightarrow> \<exists>lg'. post = [Log lg' Error (command_failed W c args)]))
   \<and> (snapshots W pkgs opts lg h = (r, h @ pre @ e # post) \<and> fs_failed W (h @ pre) e
        \<longrightarrow> r = Inl Threw \<and> post = [])"
proof -
  have rm: "\<exists>es. snd (after_checkout W pkg branch message githubToken d lg h) =
         h @ SpawnSync ''git'' [''rm'', ''-rf'', ''./''] (Some d) #
           (if succeeded W h ''git'' [''rm'', ''-rf'', ''./''] (Some d) then []
            else failure_log W lg h ''git'' [''rm'', ''-rf'', ''./''] (Some d)) @
           Readdir (dist pkg) # es"
    using after_checkout_starts [of W pkg branch message githubToken d lg h] by simp
  have spawn: "r = Inl Threw \<and>
            (case spawnSync W (h @ pre) c args cwd of
               None \<Rightarrow> post = []
             | Some st \<Rightarrow> \<exists>lg'. post = [Log lg' Error (command_failed W c args)])"
    if a: "snapshots W pkgs opts lg h = (r, h @ pre @ SpawnSync c args cwd # post) \<and>
        \<not> succeeded W (h @ pre) c args cwd \<and>
        \<not> tolerated (resolve_branch W opts) args"
    using run_stops_at_failed_command [of W pkgs opts lg h r pre c args cwd post] a
    by (auto simp: failure_log_def split: option.splits)
  have fs: "r = Inl Threw \<and> post = []"
    if a: "snapshots W pkgs opts lg h = (r, h @ pre @ e # post) \<and> fs_failed W (h @ pre) e"
    using run_stops_at_failed_call [of W pkgs opts lg h r pre e post] a by blast
  from rm spawn fs clear_snapshot_eq [of W d lg h] show ?thesis
    by blast
qed

theorem failures_abort_run_witness:
  "clear_snapshot empty_mirror ''/tmp/x'' Root [] =
     (Inr (),
      [SpawnSync ''git'' [''rm'', ''-rf'', ''./''] (Some ''/tmp/x''),
       Log Root Error (command_failed empty_mirror ''git'' [''rm'', ''-rf'', ''./''])])
   \<and> fst (snapshots empty_mirror [core_pkg, docs_pkg] dev_opts Root []) = Inr 0
   \<and> snapshots clone_fails [core_pkg, docs_pkg] dev_opts Root [] =
     (Inl Threw,
      run_start @
      [core_clone,
       Log (Child Root ''publish'') Error
         (command_failed clone_fails ''git''
            [''clone'', ''https://tok@github.com/org/core-builds.git''])])
   \<and> snapshots nul_world [core_pkg, docs_pkg] nul_token_opts Root [] =
     (Inl Threw,
      run_start @
      [SpawnSync ''git''
         [''clone'', ''https://to'' @ [CHR 0x00] @ ''k@github.com/org/core-builds.git'']
         (Some ''/tmp/angular-cli-publish-a1b2c3'')])
   \<and> snapshots unreadable_file [core_pkg, docs_pkg] dev_opts Root [] =
     (Inl Threw,
      run_start @
      [core_clone, in_core [''checkout'', ''dev''], in_core [''rm'', ''-rf'', ''./''],
       Readdir ''./dist/core'', Stat ''./dist/core/main.js'',
       ReadFile ''./dist/core/main.js'' None])
   \<and> snapshots readonly_clone [core_pkg, docs_pkg] dev_opts Root [] =
     (Inl Threw,
      run_start @
      [core_clone, in_core [''checkout'', ''dev''], in_core [''rm'', ''-rf'', ''./''],
       Readdir ''./dist/core'', in_core [''config'', ''commit.gpgSign'', ''false''],
       ReadFile ''/tmp/angular-cli-publish-a1b2c3/core-builds/README.md'' (Some ''utf-8''),
       WriteFile ''/tmp/angular-cli-publish-a1b2c3/core-builds/README.md''
         (readmeHeaderFn core_pkg)])"
proof -
  have 0: "clear_snapshot empty_mirror ''/tmp/x'' Root [] =
     (Inr (),
      [SpawnSync ''git'' [''rm'', ''-rf'', ''./''] (Some ''/tmp/x''),
       Log Root Error (command_failed empty_mirror ''git'' [''rm'', ''-rf'', ''./''])])"
    using failures_abort_run [where W = empty_mirror and d = "''/tmp/x''" and lg = Root
        and h = "[]", THEN conjunct1]
    by (simp add: empty_mirror_def succeeded_def failure_log_def)
  have ok: "fst (snapshots empty_mirror [core_pkg, docs_pkg] dev_opts Root []) = Inr 0"
    by (simp add: empty_mirror_def dev_opts_def run_defs io_defs calm_sel)
  let ?l = "Log (Child Root ''publish'') Error
         (command_failed clone_fails ''git''
            [''clone'', ''https://tok@github.com/org/core-builds.git''])"
  obtain r1 t1 where run1: "snapshots clone_fails [core_pkg, docs_pkg] dev_opts Root [] = (r1, t1)"
    by (cases "snapshots clone_fails [core_pkg, docs_pkg] dev_opts Root []")
  have "snd (snapshots clone_fails [core_pkg, docs_pkg] dev_opts Root []) =
      run_start @ [core_clone, ?l]"
    by (simp add: clone_fails_def dev_opts_def run_start_def core_clone_def
        run_defs io_defs calm_sel)
  with run1 have t1: "t1 = [] @ run_start @
      SpawnSync ''git'' [''clone'', ''https://tok@github.com/org/core-builds.git'']
        (Some ''/tmp/angular-cli-publish-a1b2c3'') # [?l]"
    by (simp add: core_clone_def)
  have f1: "\<not> succeeded clone_fails ([] @ run_start) ''git''
                   [''clone'', ''https://tok@github.com/org/core-builds.git'']
                   (Some ''/tmp/angular-cli-publish-a1b2c3'')"
    by (simp add: clone_fails_def succeeded_def)
  have n1: "\<not> tolerated (resolve_branch clone_fails dev_opts)
                 [''clone'', ''https://tok@github.com/org/core-builds.git'']"
    by (simp add: tolerated_def)
  from failures_abort_run [where W = clone_fails and pkgs = "[core_pkg, docs_pkg]"
      and opts = dev_opts and lg = Root and h = "[]" and r = r1 and pre = run_start
      and c = "''git''" and args = "[''clone'', ''https://tok@github.com/org/core-builds.git'']"
      and cwd = "Some ''/tmp/angular-cli-publish-a1b2c3''" and post = "[?l]"]
    run1 [unfolded t1] f1 n1
  have r1: "r1 = Inl Threw"
    by blast
  let ?url = "''https://to'' @ [CHR 0x00] @ ''k@github.com/org/core-builds.git''"
  obtain r4 t4 where run4: "snapshots nul_world [core_pkg, docs_pkg] nul_token_opts Root [] = (r4, t4)"
    by (cases "snapshots nul_world [core_pkg, docs_pkg] nul_token_opts Root []")
  have "snd (snapshots nul_world [core_pkg, docs_pkg] nul_token_opts Root []) =
      run_start @ [SpawnSync ''git'' [''clone'', ?url] (Some ''/tmp/angular-cli-publish-a1b2c3'')]"
    by (simp add: nul_world_def nul_token_opts_def run_start_def run_defs io_defs calm_sel)
  with run4 have t4: "t4 = [] @ run_start @
      SpawnSync ''git'' [''clone'', ?url] (Some ''/tmp/angular-cli-publish-a1b2c3'') # []"
    by simp
  have f4: "\<not> succeeded nul_world ([] @ run_start) ''git'' [''clone'', ?url]
                   (Some ''/tmp/angular-cli-publish-a1b2c3'')"
    by (simp add: nul_world_def succeeded_def)
  have n4: "\<not> tolerated (resolve_branch nul_world nul_token_opts) [''clone'', ?url]"
    by (simp add: tolerated_def)
  from failures_abort_run [where W = nul_world and pkgs = "[core_pkg, docs_pkg]"
      and opts = nul_token_opts and lg = Root and h = "[]" and r = r4 and pre = run_start
      and c = "''git''" and args = "[''clone'', ?url]"
      and cwd = "Some ''/tmp/angular-cli-publish-a1b2c3''" and post = "[]"]
    run4 [unfolded t4] f4 n4
  have r4: "r4 = Inl Threw"
    by blast
  let ?pre3 = "run_start @
      [core_clone, in_core [''checkout'', ''dev''], in_core [''rm'', ''-rf'', ''./''],
       Readdir ''./dist/core'', Stat ''./dist/core/main.js'']"
  let ?rd = "ReadFile ''./dist/core/main.js'' None"
  obtain r3 t3 where run3: "snapshots unreadable_file [core_pkg, docs_pkg] dev_opts Root [] = (r3, t3)"
    by (cases "snapshots unreadable_file [core_pkg, docs_pkg] dev_opts Root []")
  have "snd (snapshots unreadable_file [core_pkg, docs_pkg] dev_opts Root []) = ?pre3 @ [?rd]"
    by (simp add: unreadable_file_def dev_opts_def run_start_def core_clone_def in_core_def
        core_dest_def run_defs io_defs calm_sel)
  with run3 have t3: "t3 = [] @ ?pre3 @ ?rd # []"
    by simp
  have f3: "fs_failed unreadable_file ([] @ ?pre3) ?rd"
    by (simp add: unreadable_file_def calm_sel)
  from failures_abort_run [where W = unreadable_file and pkgs = "[core_pkg, docs_pkg]"
      and opts = dev_opts and lg = Root and h = "[]" and r = r3 and pre = ?pre3
      and e = ?rd and post = "[]"]
    run3 [unfolded t3] f3
  have r3: "r3 = Inl Threw"
    by blast
  let ?pre2 = "run_start @
      [core_clone, in_core [''checkout'', ''dev''], in_core [''rm'', ''-rf'', ''./''],
       Readdir ''./dist/core'', in_core [''config'', ''commit.gpgSign'', ''false''],
       ReadFile ''/tmp/angular-cli-publish-a1b2c3/core-builds/README.md'' (Some ''utf-8'')]"
  let ?w = "WriteFile ''/tmp/angular-cli-publish-a1b2c3/core-builds/README.md''
         (readmeHeaderFn core_pkg)"
  obtain r2 t2 where run2: "snapshots readonly_clone [core_pkg, docs_pkg] dev_opts Root [] = (r2, t2)"
    by (cases "snapshots readonly_clone [core_pkg, docs_pkg] dev_opts Root []")
  have "snd (snapshots readonly_clone [core_pkg, docs_pkg] dev_opts Root []) = ?pre2 @ [?w]"
    by (simp add: readonly_clone_def dev_opts_def run_start_def core_clone_def in_core_def
        core_dest_def run_defs io_defs calm_sel)
  with run2 have t2: "t2 = [] @ ?pre2 @ ?w # []"
    by simp
  have f2: "fs_failed readonly_clone ([] @ ?pre2) ?w"
    by (simp add: readonly_clone_def)
  from failures_abort_run [where W = readonly_clone and pkgs = "[core_pkg, docs_pkg]"
      and opts = dev_opts and lg = Root and h = "[]" and r = r2 and pre = ?pre2
      and e = ?w and post = "[]"]
    run2 [unfolded t2] f2
  have r2: "r2 = Inl Threw"
    by blast
  from 0 ok run1 run2 run3 run4 r1 r2 r3 r4 t1 t2 t3 t4 show ?thesis
    by (simp add: core_clone_def)
qed

subsection \<open>The README and the uniqueness marker\<close>






text \<open>
  The marker of line 121 is \<open>'' + new Date()\<close>, a date printed to the second: two
  publishes whose writes of \<open>uniqueId\<close> fall into the same second (in the calm world the clock
  reads 10:00:00 throughout) write the same marker.
\<close>

lemma marker_within_one_second:
  "writes_to ''/tmp/angular-cli-publish-a1b2c3/core-builds/uniqueId''
     (snd (thenM (snapshots calm [core_pkg] dev_opts Root) (snapshots calm [core_pkg] dev_opts Root) []))
   = [''Sun Nov 01 2026 10:00:00 GMT+0000 (Coordinated Universal Time)'',
      ''Sun Nov 01 2026 10:00:00 GMT+0000 (Coordinated Universal Time)'']"
  by (simp add: dev_opts_def run_defs io_defs calm_sel)

end
